theory Spec2Isabelle
  imports Complex_Main
begin

section \<open>Python values and failures\<close>

text \<open>
  The development embeds \<^verbatim>\<open>API/Python/alifilter.py\<close>.  Python's \<^verbatim>\<open>float\<close> and numpy's
  \<^verbatim>\<open>float64\<close> are idealised by \<^typ>\<open>real\<close>, with two exceptions that are written out
  in \<open>getScores\<close>: the overflow of \<^verbatim>\<open>math.exp\<close> and the rounding of \<^verbatim>\<open>1 + e\<close> to \<^verbatim>\<open>1.0\<close>.
  Every other rounding is outside the embedding.  Every exception the
  code can raise on a value of the modelled types is a constructor of \<open>error\<close>, and a
  function that may raise returns \<open>error + 'a\<close>, \<open>Inl\<close> being the raise.
\<close>

datatype error =
  KeyError | TypeError | ValueError | IndexError | ZeroDivisionError | OverflowError
  | UnicodeEncodeError

definition ebind :: "error + 'a \<Rightarrow> ('a \<Rightarrow> error + 'b) \<Rightarrow> error + 'b" where
  "ebind r f = (case r of Inl e \<Rightarrow> Inl e | Inr x \<Rightarrow> f x)"

subsection \<open>Two-dimensional numpy arrays\<close>

text \<open>
  A two-dimensional array of shape \<open>(n, k)\<close> is the list of its \<open>n\<close> rows together
  with \<open>k\<close>; the column count is kept apart because an array of shape \<open>(0, k)\<close> has
  no row to read it from.  Indices are the non-negative integers of \<^verbatim>\<open>range\<close>; an index
  out of bounds raises \<^verbatim>\<open>IndexError\<close>.
\<close>

record ndarray =
  ncols :: nat
  cells :: "real list list"

definition numpy_zeros :: "nat \<Rightarrow> nat \<Rightarrow> ndarray" where
  "numpy_zeros n k = \<lparr>ncols = k, cells = replicate n (replicate k 0)\<rparr>"

definition getitem :: "ndarray \<Rightarrow> nat \<Rightarrow> nat \<Rightarrow> error + real" where
  "getitem M i j =
     (if i < length (cells M) \<and> j < ncols M then Inr (cells M ! i ! j) else Inl IndexError)"

definition setitem :: "ndarray \<Rightarrow> nat \<Rightarrow> nat \<Rightarrow> real \<Rightarrow> error + ndarray" where
  "setitem M i j v =
     (if i < length (cells M) \<and> j < ncols M
      then Inr (M\<lparr>cells := (cells M)[i := (cells M ! i)[j := v]]\<rparr>)
      else Inl IndexError)"

text \<open>
  \<^verbatim>\<open>numpy.dot(features, coefficients)\<close> with \<open>coefficients\<close> of shape \<open>(k, 1)\<close>: the
  shapes must agree, else \<^verbatim>\<open>ValueError\<close>; the product has shape \<open>(n, 1)\<close> and is
  represented by its single column.
\<close>

definition numpy_dot :: "ndarray \<Rightarrow> real list \<Rightarrow> error + real list" where
  "numpy_dot M c =
     (if ncols M = length c
      then Inr (map (\<lambda>row. sum_list (map2 (*) row c)) (cells M))
      else Inl ValueError)"

text \<open>
  \<^verbatim>\<open>numpy.squeeze\<close> drops every axis of length one.  Of an array of shape \<open>(n, 1)\<close> it
  leaves a one-dimensional array of length \<open>n\<close>, unless \<open>n = 1\<close>: then both axes go and
  a zero-dimensional array is left.
\<close>

datatype squeezed = Array0 real | Array1 "real list"

definition numpy_squeeze :: "real list \<Rightarrow> squeezed" where
  "numpy_squeeze col = (case col of [x] \<Rightarrow> Array0 x | _ \<Rightarrow> Array1 col)"

text \<open>Iterating (\<^verbatim>\<open>map\<close>) over a zero-dimensional array raises \<^verbatim>\<open>TypeError\<close>.\<close>

definition iterate :: "squeezed \<Rightarrow> error + real list" where
  "iterate a = (case a of Array0 x \<Rightarrow> Inl TypeError | Array1 xs \<Rightarrow> Inr xs)"

section \<open>The logistic model\<close>

text \<open>
  The constructor (lines 26--37) reads a JSON document.  The document is modelled by the
  keys the constructor looks up: a key is absent (\<open>None\<close>) or holds a value of its
  documented type.  Opening and parsing the file happen before and are left out.
\<close>

record json_logistic =
  Coefficients :: "real list option"
  Intercept :: "real option"

record json_model =
  LogisticModel :: "json_logistic option"
  FastThreshold :: "real option"

text \<open>
  The coefficients are stored as the transpose of a \<open>(1, k)\<close> array, a column of shape
  \<open>(k, 1)\<close>, kept here as the list of its \<open>k\<close> entries.
\<close>

record AliFilterModel =
  logisticModelCoefficients :: "real list"
  logisticModelIntercept :: real
  threshold :: real

definition subscript :: "'a option \<Rightarrow> error + 'a" where
  "subscript v = (case v of None \<Rightarrow> Inl KeyError | Some x \<Rightarrow> Inr x)"

definition AliFilterModel_init :: "json_model \<Rightarrow> error + AliFilterModel" where
  "AliFilterModel_init jsonModel =
     ebind (subscript (LogisticModel jsonModel)) (\<lambda>lm.
     ebind (subscript (Coefficients lm)) (\<lambda>coefficients.
     ebind (subscript (LogisticModel jsonModel)) (\<lambda>lm'.
     ebind (subscript (Intercept lm')) (\<lambda>intercept.
       Inr \<lparr>logisticModelCoefficients = coefficients,
            logisticModelIntercept = intercept,
            threshold = (case FastThreshold jsonModel of Some t \<Rightarrow> t | None \<Rightarrow> 0.5)\<rparr>))))"

text \<open>
  \<^verbatim>\<open>getScores\<close> (lines 39--40), \<^verbatim>\<open>getMaskFromScores\<close> (lines 42--43) and
  \<^verbatim>\<open>getMaskFromFeatures\<close> (lines 45--46).

  The numbers are finite float64 values, idealised by the reals, except for the two
  effects of float64 that decide which values a score can take.  \<^verbatim>\<open>math.exp\<close> raises
  \<^verbatim>\<open>OverflowError\<close> when its result exceeds the largest float64, \<^verbatim>\<open>(2 - 2**-52) * 2**1023\<close>.
  The sum \<^verbatim>\<open>1 + e\<close> is rounded to the nearest float64: it is exactly \<^verbatim>\<open>1.0\<close> for every
  \<^verbatim>\<open>e\<close> up to \<^verbatim>\<open>2**-53\<close>, half the distance from \<^verbatim>\<open>1.0\<close> to the next float64, and the
  quotient is then exactly \<^verbatim>\<open>1.0\<close>.  Infinities and NaN are outside the model.
\<close>

definition float64_max :: real where
  "float64_max = (2 - 1 / 2 ^ 52) * 2 ^ 1023"

definition math_exp :: "real \<Rightarrow> error + real" where
  "math_exp x = (if exp x > float64_max then Inl OverflowError else Inr (exp x))"

definition float64_one_plus :: "real \<Rightarrow> real" where
  "float64_one_plus e = (if e \<le> 1 / 2 ^ 53 then 1 else 1 + e)"

text \<open>The function mapped over the squeezed product, \<^verbatim>\<open>lambda x: 1 / (1 + math.exp(-(x + self.logisticModelIntercept)))\<close>.\<close>

definition logistic :: "AliFilterModel \<Rightarrow> real \<Rightarrow> error + real" where
  "logistic self x =
     ebind (math_exp (- (x + logisticModelIntercept self))) (\<lambda>e.
       Inr (1 / float64_one_plus e))"

text \<open>\<^verbatim>\<open>array.array('d', map(f, xs))\<close> consumes the iterator in order; the first raise ends it.\<close>

primrec map_array :: "('a \<Rightarrow> error + 'b) \<Rightarrow> 'a list \<Rightarrow> error + 'b list" where
  "map_array f [] = Inr []"
| "map_array f (x # xs) =
     ebind (f x) (\<lambda>y. ebind (map_array f xs) (\<lambda>ys. Inr (y # ys)))"

definition getScores :: "AliFilterModel \<Rightarrow> ndarray \<Rightarrow> error + real list" where
  "getScores self features =
     ebind (numpy_dot features (logisticModelCoefficients self)) (\<lambda>d.
     ebind (iterate (numpy_squeeze d)) (map_array (logistic self)))"

definition getMaskFromScores :: "AliFilterModel \<Rightarrow> real list \<Rightarrow> string" where
  "getMaskFromScores self scores =
     map (\<lambda>x. if x \<ge> threshold self then CHR ''1'' else CHR ''0'') scores"

definition getMaskFromFeatures :: "AliFilterModel \<Rightarrow> ndarray \<Rightarrow> error + string" where
  "getMaskFromFeatures self features =
     ebind (getScores self features) (\<lambda>scores. Inr (getMaskFromScores self scores))"

section \<open>Alignments\<close>

text \<open>
  A row of a \<^verbatim>\<open>Bio.Align.MultipleSeqAlignment\<close> is a \<^verbatim>\<open>Bio.SeqRecord.SeqRecord\<close>: its
  sequence and the seven fields the filter hands on.  The cross references, features and annotations are
  opaque values; the per-letter annotations are a dictionary whose values are
  sequences, kept as an association list.
\<close>

record ('f, 'a, 'l) SeqRecord =
  seq :: string
  id_rec :: string
  name :: string
  description :: string
  dbxrefs :: "string list"
  features_rec :: 'f
  annotations :: 'a
  letter_annotations :: "(string \<times> 'l list) list"

type_synonym ('f, 'a, 'l) alignment = "('f, 'a, 'l) SeqRecord list"

text \<open>
  \<^verbatim>\<open>Bio.Seq.Seq\<close> keeps its data as bytes.  Built from bytes it takes any byte; built from
  a \<^verbatim>\<open>str\<close>, as the filter does, it encodes the text as ASCII, and a character beyond 127
  raises \<^verbatim>\<open>UnicodeEncodeError\<close>.
\<close>

definition Seq_new :: "string \<Rightarrow> error + string" where
  "Seq_new data =
     (if list_all (\<lambda>c. (of_char c :: nat) < 128) data then Inr data
      else Inl UnicodeEncodeError)"

text \<open>
  The constructor of \<^verbatim>\<open>SeqRecord\<close> stores the per-letter annotations in a dictionary
  restricted to the length of the sequence and refuses a value of another length:
  Biopython 1.88 raises \<^verbatim>\<open>ValueError\<close>, older releases raise \<^verbatim>\<open>TypeError\<close>.  The
  model follows the current release; nothing below depends on which of the two it is.
\<close>

definition SeqRecord_new ::
  "string \<Rightarrow> string \<Rightarrow> string \<Rightarrow> string \<Rightarrow> string list \<Rightarrow> 'f \<Rightarrow> 'a \<Rightarrow> (string \<times> 'l list) list
     \<Rightarrow> error + ('f, 'a, 'l) SeqRecord" where
  "SeqRecord_new s i n d x f a la =
     (if list_all (\<lambda>kv. length (snd kv) = length s) la
      then Inr \<lparr>seq = s, id_rec = i, name = n, description = d, dbxrefs = x, features_rec = f,
                annotations = a, letter_annotations = la\<rparr>
      else Inl ValueError)"

text \<open>
  \<^verbatim>\<open>get_alignment_length\<close> runs over the rows and returns the largest sequence length
  it meets, starting from 0; an alignment without rows therefore has length 0.  The
  class keeps all rows at one length (\<open>rectangular\<close>): its constructor takes the length
  of the first record it is given and raises \<^verbatim>\<open>ValueError\<close> at the first record of
  another length.  \<open>MultipleSeqAlignment_new\<close> consumes the lazy \<^verbatim>\<open>map\<close> it is given, so
  the records are built (by \<open>mk\<close>) one at a time, each before its length is looked at.
  Annotations of the alignment as a whole are not handed on by the filter and are left
  out.
\<close>

primrec max_length_loop :: "('f, 'a, 'l) alignment \<Rightarrow> nat \<Rightarrow> nat" where
  "max_length_loop [] max_length = max_length"
| "max_length_loop (record # records) max_length =
     max_length_loop records
       (if length (seq record) > max_length then length (seq record) else max_length)"

definition get_alignment_length :: "('f, 'a, 'l) alignment \<Rightarrow> nat" where
  "get_alignment_length alignment = max_length_loop alignment 0"

definition rectangular :: "('f, 'a, 'l) alignment \<Rightarrow> bool" where
  "rectangular alignment =
     list_all (\<lambda>r. length (seq r) = get_alignment_length alignment) alignment"

primrec extend ::
  "(('f, 'a, 'l) SeqRecord \<Rightarrow> error + ('f, 'a, 'l) SeqRecord) \<Rightarrow> ('f, 'a, 'l) SeqRecord list
     \<Rightarrow> nat option \<Rightarrow> error + ('f, 'a, 'l) alignment" where
  "extend mk [] expected_length = Inr []"
| "extend mk (r # rs) expected_length =
     ebind (mk r) (\<lambda>rec.
       case expected_length of
         None \<Rightarrow> ebind (extend mk rs (Some (length (seq rec)))) (\<lambda>rest. Inr (rec # rest))
       | Some n \<Rightarrow>
           if length (seq rec) \<noteq> n then Inl ValueError
           else ebind (extend mk rs expected_length) (\<lambda>rest. Inr (rec # rest)))"

definition MultipleSeqAlignment_new ::
  "(('f, 'a, 'l) SeqRecord \<Rightarrow> error + ('f, 'a, 'l) SeqRecord) \<Rightarrow> ('f, 'a, 'l) SeqRecord list
     \<Rightarrow> error + ('f, 'a, 'l) alignment" where
  "MultipleSeqAlignment_new mk records = extend mk records None"

section \<open>Feature extraction\<close>

text \<open>
  A \<^verbatim>\<open>Bio.Seq.Seq\<close> keeps its data as bytes and indexing returns \<^verbatim>\<open>chr\<close> of the byte, so
  the letter \<^verbatim>\<open>c\<close> of line 61 is a character of code point below 256, a \<^typ>\<open>char\<close>.
  \<^verbatim>\<open>c.upper()\<close> is a string, given here by the code points of its characters: the
  letters a--z and the accented small letters move down by 32, the micro sign and
  \<^verbatim>\<open>chr(255)\<close> leave the range, and the upper case of \<^verbatim>\<open>chr(223)\<close>, the sharp s, is the
  two letters \<^verbatim>\<open>SS\<close>.  \<^verbatim>\<open>ord\<close> of a string that is not one character raises
  \<^verbatim>\<open>TypeError\<close>.
\<close>

definition upper :: "char \<Rightarrow> nat list" where
  "upper c =
     (let n = (of_char c :: nat) in
      if 97 \<le> n \<and> n \<le> 122 then [n - 32]
      else if n = 181 then [924]
      else if n = 223 then [83, 83]
      else if (224 \<le> n \<and> n \<le> 246) \<or> (248 \<le> n \<and> n \<le> 254) then [n - 32]
      else if n = 255 then [376]
      else [n])"

definition ord :: "nat list \<Rightarrow> error + nat" where
  "ord s = (case s of [n] \<Rightarrow> Inr n | _ \<Rightarrow> Inl TypeError)"

text \<open>
  The loop over the rows of \<^verbatim>\<open>__alifilter_computeColumnFeatures\<close> (lines 60--69), on the state
  \<open>(gapCount, counts, validChars)\<close>.  The 26 counters are numpy's 32-bit integers; a
  counter never exceeds the number of rows, and they are kept as naturals.  Reading a
  row shorter than the column raises \<^verbatim>\<open>IndexError\<close>, and \<^verbatim>\<open>ord(c.upper())\<close> of line 66
  raises \<^verbatim>\<open>TypeError\<close> on the sharp s.
\<close>

primrec scan_column ::
  "('f, 'a, 'l) alignment \<Rightarrow> nat \<Rightarrow> nat \<times> nat list \<times> nat \<Rightarrow> error + nat \<times> nat list \<times> nat" where
  "scan_column [] column st = Inr st"
| "scan_column (r # rs) column st =
     (case st of (gapCount, counts, validChars) \<Rightarrow>
        if column < length (seq r) then
          (let c = seq r ! column in
           if c = CHR ''-'' then scan_column rs column (gapCount + 1, counts, validChars)
           else
             ebind (ord (upper c)) (\<lambda>C.
               if C \<ge> 65 \<and> C \<le> 90
               then scan_column rs column
                      (gapCount, counts[C - 65 := counts ! (C - 65) + 1], validChars + 1)
               else scan_column rs column (gapCount, counts, validChars)))
        else Inl IndexError)"

text \<open>
  The rest of the function (lines 71--86).  The quotient of line 72 is evaluated before
  anything is stored, so on an alignment without rows the function raises
  \<^verbatim>\<open>ZeroDivisionError\<close> whatever the matrix.  \<open>entropy_term\<close> is the \<^verbatim>\<open>lambda\<close> of
  line 77.
\<close>

definition entropy_term :: "nat \<Rightarrow> nat \<Rightarrow> real" where
  "entropy_term validChars x =
     (if x \<le> 0 then 0 else - real x / real validChars * ln (real x / real validChars))"

definition alifilter_computeColumnFeatures ::
  "('f, 'a, 'l) alignment \<Rightarrow> nat \<Rightarrow> ndarray \<Rightarrow> error + ndarray" where
  "alifilter_computeColumnFeatures alignment column feature_matrix =
     ebind (scan_column alignment column (0, replicate 26 0, 0)) (\<lambda>st.
       case st of (gapCount, counts, validChars) \<Rightarrow>
       if length alignment = 0 then Inl ZeroDivisionError
       else
         ebind (setitem feature_matrix column 0 (real gapCount / real (length alignment)))
         (\<lambda>fm0.
         ebind
           (if validChars > 0 then
              (let maxId = Max (set counts);
                   entropy = sum_list (map (entropy_term validChars) counts)
               in ebind (setitem fm0 column 1 (real maxId / real (length alignment)))
                    (\<lambda>fm1. setitem fm1 column 3 entropy))
            else ebind (setitem fm0 column 1 0) (\<lambda>fm1. setitem fm1 column 3 0))
         (\<lambda>fm3.
           setitem fm3 column 2
             (real_of_int
                (min (int column) (int (get_alignment_length alignment) - 1 - int column))))))"

text \<open>
  \<^verbatim>\<open>__alifilter_getAlignmentFeatures\<close> (lines 90--114): the first loop (lines 95--96),
  then the second (lines 99--112), each over \<^verbatim>\<open>range(alignmentLength)\<close>.
\<close>

primrec first_pass ::
  "('f, 'a, 'l) alignment \<Rightarrow> nat list \<Rightarrow> ndarray \<Rightarrow> error + ndarray" where
  "first_pass alignment [] features = Inr features"
| "first_pass alignment (i # is) features =
     ebind (alifilter_computeColumnFeatures alignment i features) (first_pass alignment is)"

text \<open>\<^verbatim>\<open>features[j, 0] if cond else 0\<close>: the read happens only under the condition.\<close>

definition gaps_if :: "ndarray \<Rightarrow> bool \<Rightarrow> nat \<Rightarrow> error + real" where
  "gaps_if features cond j = (if cond then getitem features j 0 else Inr 0)"

definition window1 :: "ndarray \<Rightarrow> nat \<Rightarrow> nat \<Rightarrow> error + real" where
  "window1 features alignmentLength i =
     ebind (gaps_if features (i > 0) (i - 1)) (\<lambda>a.
     ebind (getitem features i 0) (\<lambda>b.
     ebind (gaps_if features (int i < int alignmentLength - 1) (i + 1)) (\<lambda>c.
       Inr ((a + b + c) /
            (1 + (if i > 0 then 1 else 0)
               + (if int i < int alignmentLength - 1 then 1 else 0))))))"

definition window2 :: "ndarray \<Rightarrow> nat \<Rightarrow> nat \<Rightarrow> error + real" where
  "window2 features alignmentLength i =
     ebind (gaps_if features (i > 1) (i - 2)) (\<lambda>a2.
     ebind (gaps_if features (i > 0) (i - 1)) (\<lambda>a1.
     ebind (getitem features i 0) (\<lambda>b.
     ebind (gaps_if features (int i < int alignmentLength - 1) (i + 1)) (\<lambda>c1.
     ebind (gaps_if features (int i < int alignmentLength - 2) (i + 2)) (\<lambda>c2.
       Inr ((a2 + a1 + b + c1 + c2) /
            (1 + (if i > 1 then 2 else (if i > 0 then 1 else 0))
               + (if int i < int alignmentLength - 2 then 2
                  else (if int i < int alignmentLength - 1 then 1 else 0)))))))))"

primrec second_pass :: "nat \<Rightarrow> nat list \<Rightarrow> ndarray \<Rightarrow> error + ndarray" where
  "second_pass alignmentLength [] features = Inr features"
| "second_pass alignmentLength (i # is) features =
     ebind (window1 features alignmentLength i) (\<lambda>w1.
     ebind (setitem features i 4 w1) (\<lambda>f4.
     ebind (window2 f4 alignmentLength i) (\<lambda>w2.
     ebind (setitem f4 i 5 w2) (second_pass alignmentLength is))))"

definition alifilter_getAlignmentFeatures :: "('f, 'a, 'l) alignment \<Rightarrow> error + ndarray" where
  "alifilter_getAlignmentFeatures alignment =
     (let alignmentLength = get_alignment_length alignment in
      ebind (first_pass alignment [0..<alignmentLength] (numpy_zeros alignmentLength 6))
        (second_pass alignmentLength [0..<alignmentLength]))"

text \<open>
  Both functions are plain functions of the module.  Line 116 binds the second to
  \<^verbatim>\<open>MultipleSeqAlignment\<close>, but of their argument they use only \<^verbatim>\<open>len\<close>, indexing and
  \<^verbatim>\<open>get_alignment_length()\<close>, so they run on every object that has the three.  For an
  object that is not a \<^verbatim>\<open>MultipleSeqAlignment\<close> the length it reports is a datum of its
  own, not a function of its rows.  The definitions below are the same two functions
  with that reported length as a parameter, in the place of each call of
  \<^verbatim>\<open>alignment.get_alignment_length()\<close> (lines 86 and 91).
\<close>

definition alifilter_computeColumnFeatures_obj ::
  "nat \<Rightarrow> ('f, 'a, 'l) SeqRecord list \<Rightarrow> nat \<Rightarrow> ndarray \<Rightarrow> error + ndarray" where
  "alifilter_computeColumnFeatures_obj reported_length alignment column feature_matrix =
     ebind (scan_column alignment column (0, replicate 26 0, 0)) (\<lambda>st.
       case st of (gapCount, counts, validChars) \<Rightarrow>
       if length alignment = 0 then Inl ZeroDivisionError
       else
         ebind (setitem feature_matrix column 0 (real gapCount / real (length alignment)))
         (\<lambda>fm0.
         ebind
           (if validChars > 0 then
              (let maxId = Max (set counts);
                   entropy = sum_list (map (entropy_term validChars) counts)
               in ebind (setitem fm0 column 1 (real maxId / real (length alignment)))
                    (\<lambda>fm1. setitem fm1 column 3 entropy))
            else ebind (setitem fm0 column 1 0) (\<lambda>fm1. setitem fm1 column 3 0))
         (\<lambda>fm3.
           setitem fm3 column 2
             (real_of_int (min (int column) (int reported_length - 1 - int column))))))"

primrec first_pass_obj ::
  "nat \<Rightarrow> ('f, 'a, 'l) SeqRecord list \<Rightarrow> nat list \<Rightarrow> ndarray \<Rightarrow> error + ndarray" where
  "first_pass_obj reported_length alignment [] features = Inr features"
| "first_pass_obj reported_length alignment (i # is) features =
     ebind (alifilter_computeColumnFeatures_obj reported_length alignment i features)
       (first_pass_obj reported_length alignment is)"

definition alifilter_getAlignmentFeatures_obj ::
  "nat \<Rightarrow> ('f, 'a, 'l) SeqRecord list \<Rightarrow> error + ndarray" where
  "alifilter_getAlignmentFeatures_obj reported_length alignment =
     (let alignmentLength = reported_length in
      ebind (first_pass_obj reported_length alignment [0..<alignmentLength]
               (numpy_zeros alignmentLength 6))
        (second_pass alignmentLength [0..<alignmentLength]))"

section \<open>Mask and filter\<close>

text \<open>\<^verbatim>\<open>getMask\<close> (lines 48--49) and \<^verbatim>\<open>filter\<close> (lines 51--53).\<close>

definition getMask :: "AliFilterModel \<Rightarrow> ('f, 'a, 'l) alignment \<Rightarrow> error + string" where
  "getMask self alignment =
     ebind (alifilter_getAlignmentFeatures alignment) (getMaskFromFeatures self)"

text \<open>
  The generator \<^verbatim>\<open>seq.seq[i] for i in range(len(scores)) if scores[i] >= self.threshold\<close>:
  the letter is read only where the score passes, and reading past the end of the row
  raises \<^verbatim>\<open>IndexError\<close>.
\<close>

primrec kept_letters :: "string \<Rightarrow> real list \<Rightarrow> real \<Rightarrow> nat list \<Rightarrow> error + string" where
  "kept_letters s scores t [] = Inr []"
| "kept_letters s scores t (i # is) =
     (if scores ! i \<ge> t then
        (if i < length s
         then ebind (kept_letters s scores t is) (\<lambda>rest. Inr (s ! i # rest))
         else Inl IndexError)
      else kept_letters s scores t is)"

text \<open>
  The new row of line 53: the kept letters joined to a \<^verbatim>\<open>str\<close>, a \<^verbatim>\<open>Seq\<close> of it, and a
  \<^verbatim>\<open>SeqRecord\<close> of that with the seven fields of the source row.
\<close>

definition filter_row ::
  "AliFilterModel \<Rightarrow> real list \<Rightarrow> ('f, 'a, 'l) SeqRecord \<Rightarrow> error + ('f, 'a, 'l) SeqRecord" where
  "filter_row self scores r =
     ebind (kept_letters (seq r) scores (threshold self) [0..<length scores]) (\<lambda>s.
     ebind (Seq_new s) (\<lambda>data.
       SeqRecord_new data (id_rec r) (name r) (description r) (dbxrefs r) (features_rec r)
         (annotations r) (letter_annotations r)))"

definition filter_aln ::
  "AliFilterModel \<Rightarrow> ('f, 'a, 'l) alignment \<Rightarrow> error + ('f, 'a, 'l) alignment" where
  "filter_aln self alignment =
     ebind (alifilter_getAlignmentFeatures alignment) (\<lambda>features.
     ebind (getScores self features) (\<lambda>scores.
       MultipleSeqAlignment_new (filter_row self scores) alignment))"

section \<open>What the specification says\<close>

text \<open>
  The definitions named \<open>spec_\<close> follow the words of the specification and are what
  the code is compared with.  A column is classified letter by letter
  (\<open>letter_index\<close>, written from the code points and not from the code's \<open>upper\<close>):
  the capitals A--Z (65--90) and the small letters a--z (97--122) have the index of
  their letter, 0 to 25, and every other character, the gap \<^verbatim>\<open>'-'\<close> among them, has
  none.  The gap count of a column is
  the number of rows with a gap there, the count of a letter the number of rows with
  that letter, and the valid characters are the rows with any letter.
\<close>

definition letter_index :: "char \<Rightarrow> nat option" where
  "letter_index c =
     (let n = (of_char c :: nat) in
      if 65 \<le> n \<and> n \<le> 90 then Some (n - 65)
      else if 97 \<le> n \<and> n \<le> 122 then Some (n - 97)
      else None)"

definition spec_gapCount :: "('f, 'a, 'l) alignment \<Rightarrow> nat \<Rightarrow> nat" where
  "spec_gapCount alignment i = length (filter (\<lambda>r. seq r ! i = CHR ''-'') alignment)"

definition spec_letterCount :: "('f, 'a, 'l) alignment \<Rightarrow> nat \<Rightarrow> nat \<Rightarrow> nat" where
  "spec_letterCount alignment i k =
     length (filter (\<lambda>r. letter_index (seq r ! i) = Some k) alignment)"

definition spec_validChars :: "('f, 'a, 'l) alignment \<Rightarrow> nat \<Rightarrow> nat" where
  "spec_validChars alignment i =
     length (filter (\<lambda>r. letter_index (seq r ! i) \<noteq> None) alignment)"

definition spec_letterCounts :: "('f, 'a, 'l) alignment \<Rightarrow> nat \<Rightarrow> nat list" where
  "spec_letterCounts alignment i = map (spec_letterCount alignment i) [0..<26]"

definition spec_gapFraction :: "('f, 'a, 'l) alignment \<Rightarrow> nat \<Rightarrow> real" where
  "spec_gapFraction alignment i = real (spec_gapCount alignment i) / real (length alignment)"

definition spec_maxIdentityFraction :: "('f, 'a, 'l) alignment \<Rightarrow> nat \<Rightarrow> real" where
  "spec_maxIdentityFraction alignment i =
     (if spec_validChars alignment i > 0
      then real (Max (set (spec_letterCounts alignment i))) / real (length alignment)
      else 0)"

definition spec_p :: "('f, 'a, 'l) alignment \<Rightarrow> nat \<Rightarrow> nat \<Rightarrow> real" where
  "spec_p alignment i k =
     real (spec_letterCount alignment i k) / real (spec_validChars alignment i)"

definition spec_shannonEntropy :: "('f, 'a, 'l) alignment \<Rightarrow> nat \<Rightarrow> real" where
  "spec_shannonEntropy alignment i =
     (if spec_validChars alignment i > 0
      then - sum_list (map (\<lambda>k. spec_p alignment i k * ln (spec_p alignment i k))
                        (filter (\<lambda>k. spec_letterCount alignment i k > 0) [0..<26]))
      else 0)"

definition spec_distanceFromExtremity :: "('f, 'a, 'l) alignment \<Rightarrow> nat \<Rightarrow> int" where
  "spec_distanceFromExtremity alignment i =
     min (int i) (int (get_alignment_length alignment) - 1 - int i)"

text \<open>
  The average of \<open>g\<close> over the columns that exist among \<open>i - w, \<dots>, i + w\<close>, of an
  alignment of \<open>L\<close> columns: the sum over those columns divided by their number.
\<close>

definition spec_window :: "nat \<Rightarrow> (nat \<Rightarrow> real) \<Rightarrow> nat \<Rightarrow> nat \<Rightarrow> real" where
  "spec_window w g L i =
     (let js = filter (\<lambda>j. i \<le> j + w \<and> j \<le> i + w) [0..<L]
      in sum_list (map g js) / real (length js))"

text \<open>The score of a feature vector, as the specification writes it.\<close>

definition spec_sigmoid :: "real \<Rightarrow> real" where
  "spec_sigmoid z = 1 / (1 + exp (- z))"

definition spec_dot :: "real list \<Rightarrow> real list \<Rightarrow> real" where
  "spec_dot v c = sum_list (map2 (*) v c)"

definition spec_score :: "AliFilterModel \<Rightarrow> real list \<Rightarrow> real" where
  "spec_score self v =
     spec_sigmoid (spec_dot v (logisticModelCoefficients self) + logisticModelIntercept self)"

text \<open>
  Where the real numbers stand for the float64 computation of a score.  The float64 dot
  product is the real one, up to rounding, as long as no partial sum overflows;
  \<open>no_overflow\<close> keeps the products and the intercept below \<^verbatim>\<open>2**1000\<close> in absolute value,
  which is enough for the six terms.  The score is the sigmoid of the linear predictor,
  up to rounding, as long as neither float64 effect of \<open>getScores\<close> occurs;
  \<open>in_exact_range\<close> asks for a linear predictor between \<open>- 640\<close> and \<open>33\<close>, where that is
  proved below: \<open>exp 640\<close> is below the largest float64 and \<open>exp (- 33)\<close> is above \<^verbatim>\<open>2**-53\<close>.
\<close>

definition no_overflow :: "AliFilterModel \<Rightarrow> real list \<Rightarrow> bool" where
  "no_overflow self v =
     (list_all (\<lambda>t. \<bar>t\<bar> \<le> 2 ^ 1000) (map2 (*) v (logisticModelCoefficients self)) \<and>
      \<bar>logisticModelIntercept self\<bar> \<le> 2 ^ 1000)"

definition in_exact_range :: "AliFilterModel \<Rightarrow> real list \<Rightarrow> bool" where
  "in_exact_range self v =
     (no_overflow self v \<and>
      (let z = spec_dot v (logisticModelCoefficients self) + logisticModelIntercept self
       in - 640 \<le> z \<and> z \<le> 33))"

text \<open>The rows that the filter can rebuild: text that \<open>Seq_new\<close> accepts.\<close>

definition ascii_rows :: "('f, 'a, 'l) alignment \<Rightarrow> bool" where
  "ascii_rows alignment =
     list_all (\<lambda>r. list_all (\<lambda>c. (of_char c :: nat) < 128) (seq r)) alignment"

text \<open>
  The sharp s, \<^verbatim>\<open>chr(223)\<close>, is the one character below 256 whose upper case is not one
  character; \<open>no_sharp_s\<close> says that an alignment holds none.
\<close>

definition no_sharp_s :: "('f, 'a, 'l) alignment \<Rightarrow> bool" where
  "no_sharp_s alignment = list_all (\<lambda>r. list_all (\<lambda>c. c \<noteq> CHR 0xDF) (seq r)) alignment"

section \<open>Closed forms of the two passes\<close>

text \<open>
  What the code leaves in the feature matrix, written without the loops: \<open>base_row\<close> is
  the effect of the four stores of \<^verbatim>\<open>__alifilter_computeColumnFeatures\<close> on a row,
  \<open>code_window1\<close> and \<open>code_window2\<close> are the two expressions of the second pass over a
  column 0 given as a function, and \<open>feature_row\<close> is the finished row.  The lemmas
  below prove that the loops compute them; the claims are stated on the loops.
\<close>

definition base_row :: "('f, 'a, 'l) alignment \<Rightarrow> nat \<Rightarrow> real list \<Rightarrow> real list" where
  "base_row alignment i row =
     row[0 := spec_gapFraction alignment i, 1 := spec_maxIdentityFraction alignment i,
         3 := spec_shannonEntropy alignment i,
         2 := real_of_int (spec_distanceFromExtremity alignment i)]"

definition code_window1 :: "(nat \<Rightarrow> real) \<Rightarrow> nat \<Rightarrow> nat \<Rightarrow> real" where
  "code_window1 g L i =
     ((if i > 0 then g (i - 1) else 0) + g i + (if int i < int L - 1 then g (i + 1) else 0)) /
     (1 + (if i > 0 then 1 else 0) + (if int i < int L - 1 then 1 else 0))"

definition code_window2 :: "(nat \<Rightarrow> real) \<Rightarrow> nat \<Rightarrow> nat \<Rightarrow> real" where
  "code_window2 g L i =
     ((if i > 1 then g (i - 2) else 0) + (if i > 0 then g (i - 1) else 0) + g i +
      (if int i < int L - 1 then g (i + 1) else 0) +
      (if int i < int L - 2 then g (i + 2) else 0)) /
     (1 + (if i > 1 then 2 else (if i > 0 then 1 else 0))
        + (if int i < int L - 2 then 2 else (if int i < int L - 1 then 1 else 0)))"

definition feature_row :: "('f, 'a, 'l) alignment \<Rightarrow> nat \<Rightarrow> real list" where
  "feature_row a i =
     [spec_gapFraction a i, spec_maxIdentityFraction a i,
      real_of_int (spec_distanceFromExtremity a i), spec_shannonEntropy a i,
      code_window1 (spec_gapFraction a) (get_alignment_length a) i,
      code_window2 (spec_gapFraction a) (get_alignment_length a) i]"

text \<open>
  The columns a model keeps of an alignment: those whose score, computed from the
  finished row of the column, reaches the threshold.
\<close>

definition kept_columns :: "AliFilterModel \<Rightarrow> ('f, 'a, 'l) alignment \<Rightarrow> nat list" where
  "kept_columns self a =
     filter (\<lambda>i. spec_score self (feature_row a i) \<ge> threshold self)
       [0..<get_alignment_length a]"

section \<open>Example inputs\<close>

definition ex_row :: "string \<Rightarrow> (unit, unit, nat) SeqRecord" where
  "ex_row s = \<lparr>seq = s, id_rec = ''id1'', name = ''name1'', description = ''first row'',
               dbxrefs = [], features_rec = (), annotations = (), letter_annotations = []\<rparr>"

definition ex_alignment :: "(unit, unit, nat) alignment" where
  "ex_alignment = [ex_row ''A-A'', ex_row ''AAA'']"

definition ex_single :: "(unit, unit, nat) alignment" where
  "ex_single = [ex_row ''A'', ex_row ''-'']"

definition ex_model :: AliFilterModel where
  "ex_model = \<lparr>logisticModelCoefficients = [0, 0, 0, 0, 0, 0], logisticModelIntercept = 0,
                threshold = 1 / 2\<rparr>"

definition ex_single_features :: ndarray where
  "ex_single_features = \<lparr>ncols = 6, cells = [[1 / 2, 1 / 2, 0, 0, 1 / 2, 1 / 2]]\<rparr>"

definition ex_empty :: "(unit, unit, nat) alignment" where
  "ex_empty = []"

definition ex_json_five :: json_model where
  "ex_json_five = \<lparr>LogisticModel = Some \<lparr>Coefficients = Some [1, 2, 3, 4, 5], Intercept = Some 0\<rparr>,
                    FastThreshold = None\<rparr>"

definition ex_json_no_section :: json_model where
  "ex_json_no_section = \<lparr>LogisticModel = None, FastThreshold = Some (1 / 2)\<rparr>"

definition ex_json_no_intercept :: json_model where
  "ex_json_no_intercept =
     \<lparr>LogisticModel = Some \<lparr>Coefficients = Some [0, 0, 0, 0, 0, 0], Intercept = None\<rparr>,
      FastThreshold = None\<rparr>"

definition ex_json_zero :: json_model where
  "ex_json_zero =
     \<lparr>LogisticModel = Some \<lparr>Coefficients = Some [0, 0, 0, 0, 0, 0], Intercept = Some 0\<rparr>,
      FastThreshold = None\<rparr>"

definition ex_model_gaps :: AliFilterModel where
  "ex_model_gaps = \<lparr>logisticModelCoefficients = [- 1, 0, 0, 0, 0, 0],
                     logisticModelIntercept = 1 / 4, threshold = 1 / 2\<rparr>"

definition ex_model_strict :: AliFilterModel where
  "ex_model_strict = \<lparr>logisticModelCoefficients = [- 1, 0, 0, 0, 0, 0],
                       logisticModelIntercept = 1 / 4, threshold = 2\<rparr>"

definition ex_annotated :: "(unit, unit, nat) alignment" where
  "ex_annotated =
     [(ex_row ''A-A'')\<lparr>letter_annotations := [(''quality'', [30, 31, 32])]\<rparr>, ex_row ''AAA'']"

definition ex_features :: ndarray where
  "ex_features = \<lparr>ncols = 6, cells = [[0, 1, 0, 0, 1 / 4, 1 / 6],
                                         [1 / 2, 1 / 2, 1, 0, 1 / 6, 1 / 6],
                                         [0, 1, 0, 0, 1 / 4, 1 / 6]]\<rparr>"

definition ex_mixed :: "(unit, unit, nat) alignment" where
  "ex_mixed = [ex_row ''aC'', ex_row ''A?'', ex_row ''c-'', ex_row ''-x'']"

definition ex_sharp_s :: "(unit, unit, nat) alignment" where
  "ex_sharp_s = [ex_row ''AC'', ex_row [CHR ''A'', CHR 0xDF]]"

definition ex_model_saturated :: AliFilterModel where
  "ex_model_saturated = \<lparr>logisticModelCoefficients = [0, 0, 0, 0, 0, 0],
                          logisticModelIntercept = 64, threshold = 1 / 2\<rparr>"

definition ex_model_overflow :: AliFilterModel where
  "ex_model_overflow = \<lparr>logisticModelCoefficients = [0, 0, 0, 0, 0, 0],
                         logisticModelIntercept = - 1024, threshold = 1 / 2\<rparr>"

section \<open>Auxiliary lemmas\<close>

subsection \<open>Sequencing of failures and the alignment length\<close>

lemma ebind_Inr [simp]: "ebind (Inr x) f = f x"
  by (simp add: ebind_def)

lemma ebind_Inl [simp]: "ebind (Inl e) f = Inl e"
  by (simp add: ebind_def)

lemma get_alignment_length_Nil [simp]: "get_alignment_length [] = 0"
  by (simp add: get_alignment_length_def)

lemma max_length_loop_same:
  "list_all (\<lambda>r. length (seq r) = n) a \<Longrightarrow>
     max_length_loop a m = (if a = [] then m else max m n)"
  by (induction a arbitrary: m) (auto simp: max_def)

lemma get_alignment_length_same:
  "a \<noteq> [] \<Longrightarrow> list_all (\<lambda>r. length (seq r) = n) a \<Longrightarrow> get_alignment_length a = n"
  by (simp add: get_alignment_length_def max_length_loop_same)

lemma ebind_eq_Inr: "ebind r f = Inr y \<longleftrightarrow> (\<exists>x. r = Inr x \<and> f x = Inr y)"
  by (cases r) simp_all

subsection \<open>The row loop counts gaps and letters\<close>

lemma letter_index_lt: "letter_index c = Some k \<Longrightarrow> k < 26"
  by (auto simp: letter_index_def Let_def split: if_splits)

lemma letter_index_gap: "letter_index CHR ''-'' = None"
  by (simp add: letter_index_def)

lemma sharp_s_code: "(of_char c = (223::nat)) = (c = CHR 0xDF)"
proof -
  have "(of_char c = (of_char (CHR 0xDF) :: nat)) = (c = CHR 0xDF)"
    by (rule of_char_eq_iff)
  then show ?thesis by simp
qed

lemma ord_upper_cases:
  assumes "c \<noteq> CHR 0xDF"
  shows "(\<exists>k. letter_index c = Some k \<and> ord (upper c) = Inr (65 + k)) \<or>
         (letter_index c = None \<and> (\<exists>n. ord (upper c) = Inr n \<and> \<not> (65 \<le> n \<and> n \<le> 90)))"
proof -
  have "of_char c \<noteq> (223::nat)" using assms by (simp add: sharp_s_code)
  then show ?thesis
    by (auto simp: letter_index_def upper_def ord_def Let_def)
qed

lemma scan_column_eq:
  "list_all (\<lambda>r. i < length (seq r) \<and> seq r ! i \<noteq> CHR 0xDF) a \<Longrightarrow> length cs = 26 \<Longrightarrow>
   scan_column a i (g, cs, v) =
     Inr (g + spec_gapCount a i,
          map (\<lambda>k. cs ! k + spec_letterCount a i k) [0..<26],
          v + spec_validChars a i)"
proof (induction a arbitrary: g cs v)
  case Nil
  then show ?case
    by (simp add: spec_gapCount_def spec_letterCount_def spec_validChars_def map_nth [symmetric] del: map_nth)
       (metis map_nth)
next
  case (Cons r rs)
  let ?c = "seq r ! i"
  from Cons.prems have len: "i < length (seq r)" and ns: "?c \<noteq> CHR 0xDF"
    and rest: "list_all (\<lambda>r. i < length (seq r) \<and> seq r ! i \<noteq> CHR 0xDF) rs"
    by simp_all
  show ?case
  proof (cases "?c = CHR ''-''")
    case True
    then have "letter_index ?c = None" by (simp add: letter_index_gap)
    with True len Cons.IH [OF rest Cons.prems(2)] show ?thesis
      by (simp add: spec_gapCount_def spec_letterCount_def spec_validChars_def)
  next
    case False
    from ord_upper_cases [OF ns] show ?thesis
    proof (elim disjE exE conjE)
      fix j
      assume li: "letter_index ?c = Some j" and ou: "ord (upper ?c) = Inr (65 + j)"
      have j26: "j < 26" using li by (rule letter_index_lt)
      have len': "length (cs[j := cs ! j + 1]) = 26" using Cons.prems(2) by simp
      have "map (\<lambda>k. cs[j := cs ! j + 1] ! k + spec_letterCount rs i k) [0..<26]
          = map (\<lambda>k. cs ! k + spec_letterCount (r # rs) i k) [0..<26]"
        using li j26 Cons.prems(2)
        by (intro map_cong refl) (auto simp: spec_letterCount_def nth_list_update)
      with False len li ou j26 Cons.IH [OF rest len'] show ?thesis
        by (simp add: spec_gapCount_def spec_validChars_def)
    next
      fix n
      assume li: "letter_index ?c = None" and ou: "ord (upper ?c) = Inr n"
        and nv: "\<not> (65 \<le> n \<and> n \<le> 90)"
      with False len Cons.IH [OF rest Cons.prems(2)] show ?thesis
        by (auto simp add: spec_gapCount_def spec_letterCount_def spec_validChars_def)
    qed
  qed
qed

lemma entropy_sum:
  "sum_list (map (entropy_term v) (map c ks)) =
   - sum_list (map (\<lambda>k. real (c k) / real v * ln (real (c k) / real v))
                   (filter (\<lambda>k. c k > 0) ks))"
  by (induction ks) (simp_all add: entropy_term_def)

lemma counts_from_zero:
  "map (\<lambda>k. replicate 26 0 ! k + spec_letterCount a i k) [0..<26] = spec_letterCounts a i"
  unfolding spec_letterCounts_def by (intro map_cong refl) simp

lemma computeColumnFeatures_eq:
  assumes "a \<noteq> []" and "list_all (\<lambda>r. i < length (seq r) \<and> seq r ! i \<noteq> CHR 0xDF) a"
    and "i < length (cells fm)" and "ncols fm = 6"
  shows "alifilter_computeColumnFeatures a i fm =
           Inr (fm\<lparr>cells := (cells fm)[i := base_row a i (cells fm ! i)]\<rparr>)"
proof -
  have scan: "scan_column a i (0, replicate 26 0, 0) =
      Inr (spec_gapCount a i, spec_letterCounts a i, spec_validChars a i)"
    using scan_column_eq [OF assms(2), of "replicate 26 0" 0 0]
    by (simp add: counts_from_zero)
  have ent: "sum_list (map (entropy_term (spec_validChars a i)) (spec_letterCounts a i)) =
      - sum_list (map (\<lambda>k. spec_p a i k * ln (spec_p a i k))
                        (filter (\<lambda>k. spec_letterCount a i k > 0) [0..<26]))"
    unfolding spec_letterCounts_def spec_p_def by (rule entropy_sum)
  show ?thesis
    unfolding alifilter_computeColumnFeatures_def scan
    using assms(1,3,4)
    by (simp add: setitem_def ent base_row_def spec_gapFraction_def
        spec_maxIdentityFraction_def spec_shannonEntropy_def spec_distanceFromExtremity_def
        Let_def)
qed

subsection \<open>The two passes\<close>

lemma fold_pointwise:
  "k \<le> length xs \<Longrightarrow>
   fold (\<lambda>i cs. cs[i := f i (cs ! i)]) [0..<k] xs = map (\<lambda>i. f i (xs ! i)) [0..<k] @ drop k xs"
proof (induction k)
  case 0
  then show ?case by simp
next
  case (Suc k)
  then have k: "k < length xs" by simp
  have "(map (\<lambda>i. f i (xs ! i)) [0..<k] @ drop k xs)[k := f k (xs ! k)] =
        map (\<lambda>i. f i (xs ! i)) [0..<k] @ (f k (xs ! k) # drop (Suc k) xs)"
    using k by (simp add: list_update_append Cons_nth_drop_Suc [symmetric])
  moreover have "(map (\<lambda>i. f i (xs ! i)) [0..<k] @ drop k xs) ! k = xs ! k"
    using k by (simp add: nth_append)
  ultimately show ?case using Suc.IH k by simp
qed

lemma first_pass_fold:
  assumes "a \<noteq> []" and "ncols fm = 6"
    and "list_all (\<lambda>i. i < length (cells fm) \<and>
           list_all (\<lambda>r. i < length (seq r) \<and> seq r ! i \<noteq> CHR 0xDF) a) is"
  shows "first_pass a is fm =
           Inr (fm\<lparr>cells := fold (\<lambda>i cs. cs[i := base_row a i (cs ! i)]) is (cells fm)\<rparr>)"
  using assms(2,3)
proof (induction "is" arbitrary: fm)
  case Nil
  then show ?case by simp
next
  case (Cons i "is")
  let ?fm = "fm\<lparr>cells := (cells fm)[i := base_row a i (cells fm ! i)]\<rparr>"
  have step: "alifilter_computeColumnFeatures a i fm = Inr ?fm"
    using Cons.prems assms(1) by (intro computeColumnFeatures_eq) simp_all
  have "first_pass a is ?fm =
      Inr (?fm\<lparr>cells := fold (\<lambda>i cs. cs[i := base_row a i (cs ! i)]) is (cells ?fm)\<rparr>)"
    using Cons.prems by (intro Cons.IH) simp_all
  with step show ?case by simp
qed

lemma second_pass_fold:
  assumes "ncols fm = 6" and "length (cells fm) = L"
    and "\<And>j. j < L \<Longrightarrow> cells fm ! j ! 0 = g j"
    and "list_all (\<lambda>i. i < L) is"
  shows "second_pass L is fm =
           Inr (fm\<lparr>cells := fold (\<lambda>i cs. cs[i := (cs ! i)[4 := code_window1 g L i,
                                                         5 := code_window2 g L i]])
                                is (cells fm)\<rparr>)"
  using assms
proof (induction "is" arbitrary: fm)
  case Nil
  then show ?case by simp
next
  case (Cons i "is")
  have i: "i < L" using Cons.prems(4) by simp
  have c1: "(int i < int L - 1) = (Suc i < L)" and c2: "(int i < int L - 2) = (Suc (Suc i) < L)"
    by auto
  have gi: "\<And>j. j < L \<Longrightarrow> getitem fm j 0 = Inr (g j)"
    using Cons.prems(1,2,3) by (simp add: getitem_def)
  have w1: "window1 fm L i = Inr (code_window1 g L i)"
    using i by (simp add: window1_def gaps_if_def gi code_window1_def c1)
  define f4 where "f4 = fm\<lparr>cells := (cells fm)[i := (cells fm ! i)[4 := code_window1 g L i]]\<rparr>"
  have s4: "setitem fm i 4 (code_window1 g L i) = Inr f4"
    using i Cons.prems(1,2) by (simp add: setitem_def f4_def)
  have g4: "\<And>j. j < L \<Longrightarrow> getitem f4 j 0 = Inr (g j)"
    using Cons.prems(1,2,3) i by (simp add: getitem_def nth_list_update f4_def)
  have w2: "window2 f4 L i = Inr (code_window2 g L i)"
    using i by (simp add: window2_def gaps_if_def g4 code_window2_def c1 c2)
  define f5 where "f5 = fm\<lparr>cells := (cells fm)[i := (cells fm ! i)[4 := code_window1 g L i,
                                                        5 := code_window2 g L i]]\<rparr>"
  have s5: "setitem f4 i 5 (code_window2 g L i) = Inr f5"
    using i Cons.prems(1,2) by (simp add: setitem_def f4_def f5_def)
  have "second_pass L is f5 =
      Inr (f5\<lparr>cells := fold (\<lambda>i cs. cs[i := (cs ! i)[4 := code_window1 g L i,
                                                          5 := code_window2 g L i]])
                                is (cells f5)\<rparr>)"
    using Cons.prems i by (intro Cons.IH) (simp_all add: nth_list_update f5_def)
  with w1 s4 w2 s5 show ?case by (simp add: f5_def)
qed

lemma rectangular_cols:
  "rectangular a \<Longrightarrow> no_sharp_s a \<Longrightarrow> i < get_alignment_length a \<Longrightarrow>
     list_all (\<lambda>r. i < length (seq r) \<and> seq r ! i \<noteq> CHR 0xDF) a"
  by (simp add: rectangular_def no_sharp_s_def list_all_iff)

lemma getAlignmentFeatures_eq:
  assumes "rectangular a" and "a \<noteq> []" and "no_sharp_s a"
  shows "alifilter_getAlignmentFeatures a =
           Inr \<lparr>ncols = 6, cells = map (feature_row a) [0..<get_alignment_length a]\<rparr>"
proof -
  let ?L = "get_alignment_length a"
  let ?z = "numpy_zeros ?L 6"
  let ?c1 = "map (\<lambda>i. base_row a i (replicate 6 0)) [0..<?L]"
  have idx: "list_all (\<lambda>i. i < length (cells ?z) \<and>
      list_all (\<lambda>r. i < length (seq r) \<and> seq r ! i \<noteq> CHR 0xDF) a) [0..<?L]"
    using rectangular_cols [OF assms(1,3)] by (simp add: list_all_iff numpy_zeros_def)
  have "fold (\<lambda>i cs. cs[i := base_row a i (cs ! i)]) [0..<?L] (cells ?z) = ?c1"
    using fold_pointwise [of ?L "cells ?z" "base_row a"]
    by (simp add: numpy_zeros_def cong: map_cong)
  then have p1: "first_pass a [0..<?L] ?z = Inr \<lparr>ncols = 6, cells = ?c1\<rparr>"
    using first_pass_fold [OF assms(2) _ idx] by (simp add: numpy_zeros_def)
  have col0: "\<And>j. j < ?L \<Longrightarrow> ?c1 ! j ! 0 = spec_gapFraction a j"
    by (simp add: base_row_def)
  have "fold (\<lambda>i cs. cs[i := (cs ! i)[4 := code_window1 (spec_gapFraction a) ?L i,
                                     5 := code_window2 (spec_gapFraction a) ?L i]])
          [0..<?L] ?c1 = map (feature_row a) [0..<?L]"
    using fold_pointwise [of ?L ?c1
        "\<lambda>i r. r[4 := code_window1 (spec_gapFraction a) ?L i,
                 5 := code_window2 (spec_gapFraction a) ?L i]"]
    by (simp add: base_row_def feature_row_def numeral_eq_Suc cong: map_cong)
  then have p2: "second_pass ?L [0..<?L] \<lparr>ncols = 6, cells = ?c1\<rparr> =
      Inr \<lparr>ncols = 6, cells = map (feature_row a) [0..<?L]\<rparr>"
    using second_pass_fold [of "\<lparr>ncols = 6, cells = ?c1\<rparr>" ?L "spec_gapFraction a" "[0..<?L]"] col0
    by (simp add: list_all_iff)
  show ?thesis
    unfolding alifilter_getAlignmentFeatures_def Let_def p1 using p2 by simp
qed

lemma getAlignmentFeatures_empty:
  "alifilter_getAlignmentFeatures [] = Inr \<lparr>ncols = 6, cells = []\<rparr>"
  by (simp add: alifilter_getAlignmentFeatures_def numpy_zeros_def)

subsection \<open>The window expressions are averages over existing columns\<close>

lemma filter_upt_range:
  "filter (\<lambda>j. lo \<le> j \<and> j < hi) [0..<L] = [lo..<min hi L]"
proof (induction L)
  case 0
  then show ?case by simp
next
  case (Suc L)
  show ?case
  proof (cases "lo \<le> L \<and> L < hi")
    case True
    then have "min hi (Suc L) = Suc L" "min hi L = L" by auto
    with True Suc show ?thesis by simp
  next
    case False
    then have "[lo..<min hi (Suc L)] = [lo..<min hi L]"
      by (auto simp: min_def)
    with False Suc show ?thesis by simp
  qed
qed

lemma window_indices:
  "filter (\<lambda>j. i \<le> j + w \<and> j \<le> i + w) [0..<L] = [i - w..<min (Suc (i + w)) L]"
proof -
  have "(\<lambda>j. i \<le> j + w \<and> j \<le> i + w) = (\<lambda>j. i - w \<le> j \<and> j < Suc (i + w))"
    by (intro ext) auto
  then show ?thesis by (simp only: filter_upt_range)
qed

lemma spec_window_range:
  "spec_window w g L i =
     sum_list (map g [i - w..<min (Suc (i + w)) L]) / real (min (Suc (i + w)) L - (i - w))"
  by (simp add: spec_window_def window_indices Let_def)

lemma code_window1_spec:
  assumes "i < L"
  shows "code_window1 g L i = spec_window 1 g L i"
proof -
  have c1: "(int i < int L - 1) = (Suc i < L)" by auto
  show ?thesis
  proof (cases i)
    case 0
    show ?thesis
    proof (cases "Suc 0 < L")
      case True
      then have "min (Suc (Suc 0)) L = Suc (Suc 0)" by simp
      with 0 True show ?thesis
        by (simp add: code_window1_def spec_window_range c1)
    next
      case False
      with assms have "L = Suc 0" by simp
      with 0 show ?thesis
        by (simp add: code_window1_def spec_window_range c1)
    qed
  next
    case (Suc k)
    show ?thesis
    proof (cases "Suc (Suc k) < L")
      case True
      then have "min (Suc (Suc (Suc k))) L = Suc (Suc (Suc k))" by simp
      with Suc True show ?thesis
        by (simp add: code_window1_def spec_window_range c1)
    next
      case False
      with assms Suc have "L = Suc (Suc k)" by simp
      with Suc show ?thesis
        by (simp add: code_window1_def spec_window_range c1)
    qed
  qed
qed

lemma code_window2_spec:
  assumes "i < L"
  shows "code_window2 g L i = spec_window 2 g L i"
proof -
  have c1: "(int i < int L - 1) = (Suc i < L)" and c2: "(int i < int L - 2) = (Suc (Suc i) < L)"
    by auto
  consider (one) "L = Suc i" | (two) "L = Suc (Suc i)" | (more) "Suc (Suc i) < L"
    using assms by linarith
  then show ?thesis
  proof cases
    case one
    consider "i = 0" | "i = Suc 0" | k where "i = Suc (Suc k)"
      by (cases i; cases "i - 1") auto
    then show ?thesis
      by cases (simp_all add: one code_window2_def spec_window_range)
  next
    case two
    consider "i = 0" | "i = Suc 0" | k where "i = Suc (Suc k)"
      by (cases i; cases "i - 1") auto
    then show ?thesis
      by cases (simp_all add: two code_window2_def spec_window_range)
  next
    case more
    then have m: "min (Suc (i + 2)) L = Suc (Suc (Suc i))" by simp
    consider "i = 0" | "i = Suc 0" | k where "i = Suc (Suc k)"
      by (cases i; cases "i - 1") auto
    then show ?thesis
    proof cases
      case 1
      with more m show ?thesis by (simp add: code_window2_def spec_window_range c1 c2)
    next
      case 2
      with more m show ?thesis by (simp add: code_window2_def spec_window_range c1 c2)
    next
      case 3
      with more m show ?thesis by (simp add: code_window2_def spec_window_range c1 c2)
    qed
  qed
qed

lemma spec_window_cong:
  assumes "\<And>j. j < L \<Longrightarrow> g j = h j"
  shows "spec_window w g L i = spec_window w h L i"
proof -
  have "map g (filter (\<lambda>j. i \<le> j + w \<and> j \<le> i + w) [0..<L]) =
        map h (filter (\<lambda>j. i \<le> j + w \<and> j \<le> i + w) [0..<L])"
    using assms by (intro map_cong refl) simp
  then show ?thesis by (simp only: spec_window_def Let_def)
qed

lemma feature_row_nth:
  "feature_row a i ! 0 = spec_gapFraction a i"
  "feature_row a i ! Suc 0 = spec_maxIdentityFraction a i"
  "feature_row a i ! 2 = real_of_int (spec_distanceFromExtremity a i)"
  "feature_row a i ! 3 = spec_shannonEntropy a i"
  "feature_row a i ! 4 = code_window1 (spec_gapFraction a) (get_alignment_length a) i"
  "feature_row a i ! 5 = code_window2 (spec_gapFraction a) (get_alignment_length a) i"
  by (simp_all add: feature_row_def numeral_eq_Suc)

lemma spec_window_single: "spec_window w g (Suc 0) 0 = g 0"
  by (simp add: spec_window_def)

subsection \<open>The example alignments\<close>

lemma ex_alignment_rect: "rectangular ex_alignment \<and> ex_alignment \<noteq> [] \<and> get_alignment_length ex_alignment = 3"
  by (simp add: rectangular_def ex_alignment_def ex_row_def get_alignment_length_def)

lemma ex_single_rect: "rectangular ex_single \<and> ex_single \<noteq> [] \<and> get_alignment_length ex_single = 1"
  by (simp add: rectangular_def ex_single_def ex_row_def get_alignment_length_def)

lemma ex_gf: "spec_gapFraction ex_alignment 0 = 0" "spec_gapFraction ex_alignment 1 = 1/2" "spec_gapFraction ex_alignment 2 = 0"
  "spec_gapFraction ex_single 0 = 1/2" "spec_gapFraction ex_alignment (Suc 0) = 1/2"
  by (simp_all add: spec_gapFraction_def spec_gapCount_def ex_alignment_def ex_single_def ex_row_def)

lemma ex_li: "letter_index CHR ''A'' = Some 0" "letter_index CHR ''-'' = None" "letter_index CHR ''a'' = Some 0"
  "letter_index CHR ''z'' = Some 25" "letter_index CHR ''?'' = None"
  by (simp_all add: letter_index_def)

subsection \<open>Scores\<close>

lemma exp_nat_le: "exp (real n) \<le> 3 ^ n"
proof -
  have "exp (real n) = exp 1 ^ n" using exp_of_nat_mult [of n "1::real"] by simp
  also have "\<dots> \<le> 3 ^ n" by (rule power_mono) (simp_all add: exp_le)
  finally show ?thesis .
qed

lemma exp_640: "exp (640::real) \<le> float64_max"
proof -
  have "exp (640::real) \<le> 3 ^ 640" using exp_nat_le [of 640] by simp
  also have "(3::real) ^ 640 \<le> float64_max" by (simp add: float64_max_def)
  finally show ?thesis .
qed

lemma exp_33: "exp (33::real) < 2 ^ 53"
proof -
  have "exp (33::real) \<le> 3 ^ 33" using exp_nat_le [of 33] by simp
  also have "(3::real) ^ 33 < 2 ^ 53" by simp
  finally show ?thesis .
qed

lemma exp_ge_pow2: "2 ^ n \<le> exp (real n)"
proof -
  have "(2::real) \<le> exp 1" using exp_ge_add_one_self [of "1::real"] by simp
  then have "(2::real) ^ n \<le> exp 1 ^ n" by (intro power_mono) simp_all
  also have "\<dots> = exp (real n)" using exp_of_nat_mult [of n "1::real"] by simp
  finally show ?thesis .
qed

lemma logistic_sigmoid:
  assumes "- 640 \<le> x + logisticModelIntercept self" and "x + logisticModelIntercept self \<le> 33"
  shows "logistic self x = Inr (spec_sigmoid (x + logisticModelIntercept self))"
proof -
  let ?z = "x + logisticModelIntercept self"
  have "exp (- ?z) \<le> exp 640" using assms(1) by simp
  then have le: "exp (- ?z) \<le> float64_max" using exp_640 by linarith
  have "exp ?z \<le> exp 33" using assms(2) by simp
  then have "exp ?z < 2 ^ 53" using exp_33 by linarith
  then have "1 / 2 ^ 53 < 1 / exp ?z"
    by (intro divide_strict_left_mono) simp_all
  moreover have "exp (- ?z) = 1 / exp ?z"
    using exp_minus [of ?z] by (simp only: inverse_eq_divide)
  ultimately have gt: "1 / 2 ^ 53 < exp (- ?z)" by (simp only:)
  show ?thesis
    using le gt by (simp add: logistic_def math_exp_def float64_one_plus_def spec_sigmoid_def)
qed

lemma logistic_range:
  assumes "logistic self x = Inr s"
  shows "0 < s \<and> s \<le> 1"
proof -
  let ?e = "exp (- (x + logisticModelIntercept self))"
  have pos: "0 < ?e" by simp
  from assms have s: "s = 1 / float64_one_plus ?e"
    by (auto simp: logistic_def math_exp_def split: if_splits)
  have "1 \<le> float64_one_plus ?e" using pos by (simp add: float64_one_plus_def)
  then show ?thesis unfolding s by simp
qed

lemma logistic_saturates:
  assumes "53 \<le> x + logisticModelIntercept self"
  shows "logistic self x = Inr 1"
proof -
  let ?z = "x + logisticModelIntercept self"
  have "(2::real) ^ 53 \<le> exp 53" using exp_ge_pow2 [of 53] by simp
  also have "\<dots> \<le> exp ?z" using assms by simp
  finally have "1 / exp ?z \<le> 1 / 2 ^ 53"
    by (intro divide_left_mono) simp_all
  moreover have "exp (- ?z) = 1 / exp ?z"
    using exp_minus [of ?z] by (simp only: inverse_eq_divide)
  ultimately have small: "exp (- ?z) \<le> 1 / 2 ^ 53" by (simp only:)
  have "exp (- ?z) \<le> 1" using assms by simp
  also have "(1::real) \<le> float64_max" by (simp add: float64_max_def)
  finally have "\<not> float64_max < exp (- ?z)" by simp
  then show ?thesis
    using small by (simp add: logistic_def math_exp_def float64_one_plus_def)
qed

lemma logistic_overflows:
  assumes "x + logisticModelIntercept self \<le> - 1024"
  shows "logistic self x = Inl OverflowError"
proof -
  let ?z = "x + logisticModelIntercept self"
  have "float64_max < 2 ^ 1024" by (simp add: float64_max_def)
  also have "(2::real) ^ 1024 \<le> exp 1024" using exp_ge_pow2 [of 1024] by simp
  also have "\<dots> \<le> exp (- ?z)" using assms by simp
  finally show ?thesis by (simp add: logistic_def math_exp_def)
qed

lemma map_array_Inr:
  "map_array f xs = Inr ys \<Longrightarrow> list_all2 (\<lambda>x y. f x = Inr y) xs ys"
  by (induction xs arbitrary: ys) (auto simp: ebind_eq_Inr)

lemma getScores_cases:
  "getScores self F =
     (if ncols F \<noteq> length (logisticModelCoefficients self) then Inl ValueError
      else if length (cells F) = 1 then Inl TypeError
      else map_array (logistic self)
             (map (\<lambda>row. spec_dot row (logisticModelCoefficients self)) (cells F)))"
proof -
  have sq: "\<And>col::real list. iterate (numpy_squeeze col) =
      (if length col = 1 then Inl TypeError else Inr col)"
    by (simp add: iterate_def numpy_squeeze_def split: list.splits)
  show ?thesis
    by (simp add: getScores_def numpy_dot_def sq spec_dot_def)
qed

lemma logistic_exact:
  "in_exact_range self v \<Longrightarrow>
     logistic self (spec_dot v (logisticModelCoefficients self)) = Inr (spec_score self v)"
  by (simp add: in_exact_range_def Let_def spec_score_def logistic_sigmoid)

lemma map_array_rows:
  "list_all (in_exact_range self) rows \<Longrightarrow>
     map_array (logistic self)
       (map (\<lambda>row. spec_dot row (logisticModelCoefficients self)) rows) =
     Inr (map (spec_score self) rows)"
  by (induction rows) (simp_all add: logistic_exact)

lemma getScores_exact:
  assumes "ncols F = length (logisticModelCoefficients self)" and "length (cells F) \<noteq> 1"
    and "list_all (in_exact_range self) (cells F)"
  shows "getScores self F = Inr (map (spec_score self) (cells F))"
  using assms by (simp add: getScores_cases map_array_rows)

lemma getScores_Inr:
  assumes "getScores self F = Inr scores"
  shows "length scores = length (cells F) \<and> length (cells F) \<noteq> 1 \<and>
         ncols F = length (logisticModelCoefficients self) \<and>
         list_all2 (\<lambda>row s. logistic self (spec_dot row (logisticModelCoefficients self)) = Inr s)
           (cells F) scores"
proof -
  from assms have sh: "length (cells F) \<noteq> 1" "ncols F = length (logisticModelCoefficients self)"
    and m: "map_array (logistic self)
             (map (\<lambda>row. spec_dot row (logisticModelCoefficients self)) (cells F)) = Inr scores"
    by (simp_all add: getScores_cases split: if_splits)
  from map_array_Inr [OF m] have
    l2: "list_all2 (\<lambda>row s. logistic self (spec_dot row (logisticModelCoefficients self)) = Inr s)
           (cells F) scores"
    by (simp add: list_all2_map1)
  then have "length scores = length (cells F)" by (simp add: list_all2_lengthD)
  with sh l2 show ?thesis by simp
qed

lemma getScores_range:
  assumes "getScores self F = Inr scores" and "s \<in> set scores"
  shows "0 < s \<and> s \<le> 1"
proof -
  from getScores_Inr [OF assms(1)] have
    "list_all2 (\<lambda>row s. logistic self (spec_dot row (logisticModelCoefficients self)) = Inr s)
           (cells F) scores" by simp
  with assms(2) obtain row where
    "logistic self (spec_dot row (logisticModelCoefficients self)) = Inr s"
    by (auto simp: list_all2_conv_all_nth in_set_conv_nth)
  then show ?thesis by (rule logistic_range)
qed

lemma spec_sigmoid_bounds: "0 < spec_sigmoid z \<and> spec_sigmoid z < 1"
proof -
  have "0 < exp (- z)" by simp
  then show ?thesis by (simp add: spec_sigmoid_def add_pos_pos)
qed

lemma spec_dot_zero: "list_all (\<lambda>c. c = 0) c \<Longrightarrow> spec_dot v c = 0"
  unfolding spec_dot_def
  by (induction v c rule: list_induct2') simp_all

lemma zero_products:
  "0 \<le> B \<Longrightarrow> list_all (\<lambda>c. c = 0) c \<Longrightarrow> list_all (\<lambda>t. \<bar>t\<bar> \<le> (B::real)) (map2 (*) v c)"
  by (induction v c rule: list_induct2') simp_all

lemma zero_coefficients_no_overflow:
  assumes "list_all (\<lambda>c. c = 0) (logisticModelCoefficients self)"
    and "\<bar>logisticModelIntercept self\<bar> \<le> 2 ^ 1000"
  shows "no_overflow self v"
  unfolding no_overflow_def
  using zero_products [OF _ assms(1), of "2 ^ 1000" v] assms(2) by simp

lemma zero_model_no_overflow:
  "list_all (\<lambda>c. c = 0) (logisticModelCoefficients self) \<Longrightarrow> logisticModelIntercept self = 0 \<Longrightarrow>
     no_overflow self v"
  by (rule zero_coefficients_no_overflow) simp_all

lemma zero_model_exact:
  "list_all (\<lambda>c. c = 0) (logisticModelCoefficients self) \<Longrightarrow> logisticModelIntercept self = 0 \<Longrightarrow>
     in_exact_range self v"
  by (simp add: in_exact_range_def spec_dot_zero zero_model_no_overflow)

lemma ascii_no_sharp_s:
  assumes "ascii_rows a"
  shows "no_sharp_s a"
proof -
  have "c \<noteq> CHR 0xDF" if "of_char c < (128::nat)" for c
    using that by auto
  with assms show ?thesis
    by (auto simp: ascii_rows_def no_sharp_s_def list_all_iff)
qed

lemma ex_alignment_ascii: "ascii_rows ex_alignment"
  by (simp add: ascii_rows_def ex_alignment_def ex_row_def)

lemma ex_alignment_clean: "no_sharp_s ex_alignment"
  by (simp add: no_sharp_s_def ex_alignment_def ex_row_def)

lemma ex_single_clean: "no_sharp_s ex_single"
  by (simp add: no_sharp_s_def ex_single_def ex_row_def)

lemma ex_alignment_features:
  "alifilter_getAlignmentFeatures ex_alignment =
     Inr \<lparr>ncols = 6, cells = map (feature_row ex_alignment) [0..<3]\<rparr>"
  using getAlignmentFeatures_eq [of ex_alignment] ex_alignment_rect ex_alignment_clean by simp

subsection \<open>Ranges\<close>

lemma spec_gapFraction_bounds:
  "alignment \<noteq> [] \<Longrightarrow> 0 \<le> spec_gapFraction alignment i \<and> spec_gapFraction alignment i \<le> 1"
  by (simp add: spec_gapFraction_def spec_gapCount_def)

lemma spec_letterCount_le_valid: "spec_letterCount a i k \<le> spec_validChars a i"
proof -
  have "spec_letterCount a i k =
      length (filter (\<lambda>r. letter_index (seq r ! i) = Some k)
                (filter (\<lambda>r. letter_index (seq r ! i) \<noteq> None) a))"
    unfolding spec_letterCount_def by (simp add: conj_commute cong: conj_cong)
  also have "\<dots> \<le> spec_validChars a i"
    unfolding spec_validChars_def by (rule length_filter_le)
  finally show ?thesis .
qed

lemma spec_validChars_le: "spec_validChars a i \<le> length a"
  by (simp add: spec_validChars_def)

lemma spec_maxIdentityFraction_bounds:
  assumes "alignment \<noteq> []"
  shows "0 \<le> spec_maxIdentityFraction alignment i \<and> spec_maxIdentityFraction alignment i \<le> 1"
proof -
  have "Max (set (spec_letterCounts alignment i)) \<le> length alignment"
    using spec_letterCount_le_valid [of alignment i] spec_validChars_le [of alignment i]
    by (auto simp: spec_letterCounts_def intro: order_trans)
  with assms show ?thesis
    by (simp add: spec_maxIdentityFraction_def)
qed

lemma spec_shannonEntropy_nonneg: "0 \<le> spec_shannonEntropy alignment i"
proof (cases "spec_validChars alignment i > 0")
  case False
  then show ?thesis by (simp add: spec_shannonEntropy_def)
next
  case True
  have each: "spec_p alignment i k * ln (spec_p alignment i k) \<le> 0"
    if "spec_letterCount alignment i k > 0" for k
  proof -
    have "0 < spec_p alignment i k" "spec_p alignment i k \<le> 1"
      using that True spec_letterCount_le_valid [of alignment i k]
      by (simp_all add: spec_p_def)
    then have "ln (spec_p alignment i k) \<le> 0" by simp
    with \<open>0 < spec_p alignment i k\<close> show ?thesis
      by (simp add: mult_nonneg_nonpos)
  qed
  have "sum_list (map (\<lambda>k. spec_p alignment i k * ln (spec_p alignment i k))
          (filter (\<lambda>k. spec_letterCount alignment i k > 0) [0..<26])) \<le> 0"
    by (rule sum_list_nonpos) (auto simp: each)
  with True show ?thesis by (simp add: spec_shannonEntropy_def)
qed

subsection \<open>Filtering rows\<close>

lemma kept_letters_Inr:
  "kept_letters s scores t is = Inr x \<Longrightarrow>
     x = map ((!) s) (filter (\<lambda>i. scores ! i \<ge> t) is)"
  by (induction "is" arbitrary: x) (auto simp: ebind_eq_Inr split: if_splits)

lemma kept_letters_total:
  "list_all (\<lambda>i. i < length s) is \<Longrightarrow>
     kept_letters s scores t is = Inr (map ((!) s) (filter (\<lambda>i. scores ! i \<ge> t) is))"
  by (induction "is") simp_all

lemma extend_Inr:
  "extend mk rs e = Inr b \<Longrightarrow> list_all2 (\<lambda>r r'. mk r = Inr r') rs b"
  by (induction rs arbitrary: e b)
     (auto simp: ebind_eq_Inr split: option.splits if_splits)

lemma extend_total:
  assumes "list_all (\<lambda>r. \<exists>r'. mk r = Inr r' \<and> length (seq r') = n) rs"
  shows "e = None \<or> e = Some n \<Longrightarrow>
         \<exists>b. extend mk rs e = Inr b \<and> list_all2 (\<lambda>r r'. mk r = Inr r') rs b"
  using assms
proof (induction rs arbitrary: e)
  case Nil
  then show ?case by simp
next
  case (Cons r rs)
  from Cons.prems(2) obtain r' where r': "mk r = Inr r'" "length (seq r') = n"
    and rest: "list_all (\<lambda>r. \<exists>r'. mk r = Inr r' \<and> length (seq r') = n) rs"
    by auto
  from Cons.IH [of "Some n", OF _ rest] obtain b where
    b: "extend mk rs (Some n) = Inr b" "list_all2 (\<lambda>r r'. mk r = Inr r') rs b"
    by auto
  from Cons.prems(1) r' b show ?case by auto
qed

lemma mask_filter_indices:
  "filter (\<lambda>i. getMaskFromScores self scores ! i = CHR ''1'') [0..<length scores] =
   filter (\<lambda>i. scores ! i \<ge> threshold self) [0..<length scores]"
  by (rule filter_cong) (simp_all add: getMaskFromScores_def)

lemma count_kept:
  "length (filter (\<lambda>i. scores ! i \<ge> t) [0..<length scores]) = length (filter (\<lambda>x. x \<ge> t) scores)"
proof -
  have "filter (\<lambda>x. x \<ge> t) (map ((!) scores) [0..<length scores]) =
        map ((!) scores) (filter ((\<lambda>x. x \<ge> t) \<circ> (!) scores) [0..<length scores])"
    by (rule filter_map)
  then have "length (filter (\<lambda>x. x \<ge> t) scores) =
        length (filter ((\<lambda>x. x \<ge> t) \<circ> (!) scores) [0..<length scores])"
    by (simp only: map_nth length_map)
  then show ?thesis by (simp only: comp_def)
qed

lemma setitem_shape:
  "setitem M i j v = Inr M' \<Longrightarrow> length (cells M') = length (cells M) \<and> ncols M' = ncols M"
  by (auto simp: setitem_def split: if_splits)

lemma computeColumnFeatures_shape:
  assumes "alifilter_computeColumnFeatures a i fm = Inr fm'"
  shows "length (cells fm') = length (cells fm) \<and> ncols fm' = ncols fm"
  using assms unfolding alifilter_computeColumnFeatures_def
  by (auto simp: ebind_eq_Inr Let_def split: prod.splits if_splits dest!: setitem_shape)

lemma first_pass_shape:
  "first_pass a is fm = Inr fm' \<Longrightarrow>
     length (cells fm') = length (cells fm) \<and> ncols fm' = ncols fm"
  by (induction "is" arbitrary: fm)
     (auto simp: ebind_eq_Inr dest!: computeColumnFeatures_shape)

lemma second_pass_shape:
  "second_pass L is fm = Inr fm' \<Longrightarrow>
     length (cells fm') = length (cells fm) \<and> ncols fm' = ncols fm"
proof (induction "is" arbitrary: fm)
  case Nil
  then show ?case by simp
next
  case (Cons i "is")
  from Cons.prems obtain w1 f4 w2 f5 where
    "setitem fm i 4 w1 = Inr f4" "setitem f4 i 5 w2 = Inr f5" "second_pass L is f5 = Inr fm'"
    by (auto simp: ebind_eq_Inr)
  with Cons.IH [of f5] show ?case
    by (auto dest!: setitem_shape)
qed

lemma getAlignmentFeatures_shape:
  assumes "alifilter_getAlignmentFeatures a = Inr F"
  shows "length (cells F) = get_alignment_length a \<and> ncols F = 6"
proof -
  from assms obtain F1 where
    "first_pass a [0..<get_alignment_length a] (numpy_zeros (get_alignment_length a) 6) = Inr F1"
    "second_pass (get_alignment_length a) [0..<get_alignment_length a] F1 = Inr F"
    by (auto simp: alifilter_getAlignmentFeatures_def Let_def ebind_eq_Inr)
  then show ?thesis
    by (auto dest!: first_pass_shape second_pass_shape simp: numpy_zeros_def)
qed

lemma filter_row_Inr:
  assumes "filter_row self scores r = Inr r'"
  shows "seq r' = map ((!) (seq r))
                    (filter (\<lambda>i. scores ! i \<ge> threshold self) [0..<length scores]) \<and>
         id_rec r' = id_rec r \<and> name r' = name r \<and> description r' = description r \<and>
         dbxrefs r' = dbxrefs r \<and> features_rec r' = features_rec r \<and>
         annotations r' = annotations r \<and> letter_annotations r' = letter_annotations r"
proof -
  from assms obtain s where
    s: "kept_letters (seq r) scores (threshold self) [0..<length scores] = Inr s"
    and r': "SeqRecord_new s (id_rec r) (name r) (description r) (dbxrefs r) (features_rec r)
               (annotations r) (letter_annotations r) = Inr r'"
    by (auto simp: filter_row_def ebind_eq_Inr Seq_new_def split: if_splits)
  from r' have "r' = \<lparr>seq = s, id_rec = id_rec r, name = name r, description = description r,
      dbxrefs = dbxrefs r, features_rec = features_rec r, annotations = annotations r,
      letter_annotations = letter_annotations r\<rparr>"
    by (simp add: SeqRecord_new_def split: if_splits)
  with kept_letters_Inr [OF s] show ?thesis by simp
qed

lemma filter_aln_Inr:
  assumes "filter_aln self a = Inr b"
  shows "\<exists>F scores. alifilter_getAlignmentFeatures a = Inr F \<and> getScores self F = Inr scores \<and>
           length scores = get_alignment_length a \<and>
           list_all2 (\<lambda>r r'. filter_row self scores r = Inr r') a b"
proof -
  from assms obtain F scores where F: "alifilter_getAlignmentFeatures a = Inr F"
    and S: "getScores self F = Inr scores"
    and E: "extend (filter_row self scores) a None = Inr b"
    by (auto simp: filter_aln_def ebind_eq_Inr MultipleSeqAlignment_new_def)
  have "length scores = get_alignment_length a"
    using getScores_Inr [OF S] getAlignmentFeatures_shape [OF F] by simp
  with F S extend_Inr [OF E] show ?thesis by blast
qed

lemma extend_map:
  "list_all (\<lambda>r. mk r = Inr (g r) \<and> length (seq (g r)) = n) rs \<Longrightarrow>
   e = None \<or> e = Some n \<Longrightarrow> extend mk rs e = Inr (map g rs)"
  by (induction rs arbitrary: e) auto

lemma getScores_features:
  assumes "rectangular a" and "no_sharp_s a" and "get_alignment_length a \<noteq> 1"
    and "length (logisticModelCoefficients self) = 6"
    and "list_all (\<lambda>i. in_exact_range self (feature_row a i)) [0..<get_alignment_length a]"
  shows "\<exists>F. alifilter_getAlignmentFeatures a = Inr F \<and>
           getScores self F =
             Inr (map (\<lambda>i. spec_score self (feature_row a i)) [0..<get_alignment_length a])"
proof (cases "a = []")
  case True
  then show ?thesis
    using assms(4)
    by (simp add: getAlignmentFeatures_empty getScores_cases)
next
  case False
  let ?F = "\<lparr>ncols = 6, cells = map (feature_row a) [0..<get_alignment_length a]\<rparr>"
  have F: "alifilter_getAlignmentFeatures a = Inr ?F"
    using assms(1) False assms(2) by (rule getAlignmentFeatures_eq)
  have "getScores self ?F = Inr (map (spec_score self) (cells ?F))"
    using assms(3,4,5) by (intro getScores_exact) (simp_all add: list_all_iff)
  with F show ?thesis by (simp add: comp_def)
qed

lemma filter_aln_total:
  assumes "rectangular a" and "ascii_rows a" and "get_alignment_length a \<noteq> 1"
    and "length (logisticModelCoefficients self) = 6"
    and "list_all (\<lambda>i. in_exact_range self (feature_row a i)) [0..<get_alignment_length a]"
    and "list_all (\<lambda>r. letter_annotations r = []) a"
  shows "filter_aln self a =
           Inr (map (\<lambda>r. r\<lparr>seq := map ((!) (seq r)) (kept_columns self a)\<rparr>) a)"
proof -
  let ?L = "get_alignment_length a"
  let ?scores = "map (\<lambda>i. spec_score self (feature_row a i)) [0..<?L]"
  obtain F where F: "alifilter_getAlignmentFeatures a = Inr F"
    and S: "getScores self F = Inr ?scores"
    using getScores_features [OF assms(1) ascii_no_sharp_s [OF assms(2)] assms(3,4,5)] by blast
  have idx: "filter (\<lambda>i. ?scores ! i \<ge> threshold self) [0..<?L] = kept_columns self a"
    unfolding kept_columns_def by (rule filter_cong) simp_all
  have row: "filter_row self ?scores r = Inr (r\<lparr>seq := map ((!) (seq r)) (kept_columns self a)\<rparr>)"
    if "r \<in> set a" for r
  proof -
    have len: "length (seq r) = ?L" and la: "letter_annotations r = []"
      using that assms(1,6) by (auto simp: rectangular_def list_all_iff)
    have asc: "list_all (\<lambda>c. (of_char c :: nat) < 128) (seq r)"
      using that assms(2) by (simp add: ascii_rows_def list_all_iff)
    have "set (kept_columns self a) \<subseteq> {0..<?L}"
      by (auto simp: kept_columns_def)
    then have kasc: "list_all (\<lambda>c. (of_char c :: nat) < 128)
        (map ((!) (seq r)) (kept_columns self a))"
      using asc len by (auto simp: list_all_iff)
    have "kept_letters (seq r) ?scores (threshold self) [0..<?L] =
        Inr (map ((!) (seq r)) (kept_columns self a))"
      using kept_letters_total [of "seq r" "[0..<?L]" ?scores "threshold self"] len
      unfolding idx by (simp add: list_all_iff)
    then show ?thesis
      using kasc by (simp add: filter_row_def Seq_new_def SeqRecord_new_def la)
  qed
  have "extend (filter_row self ?scores) a None =
      Inr (map (\<lambda>r. r\<lparr>seq := map ((!) (seq r)) (kept_columns self a)\<rparr>) a)"
    by (rule extend_map [where n = "length (kept_columns self a)"])
       (simp_all add: list_all_iff row)
  with F S show ?thesis
    by (simp add: filter_aln_def MultipleSeqAlignment_new_def)
qed

lemma gaps_model_exact:
  assumes "logisticModelCoefficients self = [- 1, 0, 0, 0, 0, 0]" and "logisticModelIntercept self = 1 / 4"
    and "a \<noteq> []"
  shows "in_exact_range self (feature_row a i)"
proof -
  have "spec_dot (feature_row a i) (logisticModelCoefficients self) + logisticModelIntercept self =
      1 / 4 - spec_gapFraction a i"
    by (simp add: assms(1,2) spec_dot_def feature_row_def)
  moreover have "no_overflow self (feature_row a i)"
    using spec_gapFraction_bounds [OF assms(3), of i]
    by (simp add: no_overflow_def assms(1,2) feature_row_def)
  ultimately show ?thesis
    using spec_gapFraction_bounds [OF assms(3), of i]
    by (simp add: in_exact_range_def)
qed

lemma spec_sigmoid_half: "(spec_sigmoid z \<ge> 1 / 2) = (z \<ge> 0)"
proof -
  have "(1 / (1 + exp (- z)) \<ge> 1 / 2) = (1 + exp (- z) \<le> 2)"
    by (simp add: field_simps add_pos_pos)
  then show ?thesis by (simp add: spec_sigmoid_def)
qed

lemma ex_gaps_scores:
  "spec_score ex_model_gaps (feature_row ex_alignment i) \<ge> threshold ex_model_gaps
     \<longleftrightarrow> spec_gapFraction ex_alignment i \<le> 1 / 4"
proof -
  have sc: "spec_score ex_model_gaps (feature_row ex_alignment i) =
      spec_sigmoid (1 / 4 - spec_gapFraction ex_alignment i)"
    by (simp add: spec_score_def spec_dot_def feature_row_def ex_model_gaps_def)
  have t: "threshold ex_model_gaps = 1 / 2" by (simp add: ex_model_gaps_def)
  show ?thesis unfolding sc t spec_sigmoid_half by auto
qed

lemma ex_kept_gaps: "kept_columns ex_model_gaps ex_alignment = [0, 2]"
proof -
  have "[0..<3] = [0, 1, 2::nat]" by (simp add: upt_rec)
  then show ?thesis
    using ex_alignment_rect by (simp add: kept_columns_def ex_gaps_scores ex_gf)
qed

lemma ex_filter_gaps: "filter_aln ex_model_gaps ex_alignment = Inr [ex_row ''AA'', ex_row ''AA'']"
proof -
  have "list_all (\<lambda>r. letter_annotations r = []) ex_alignment"
    by (simp add: ex_alignment_def ex_row_def)
  then have "filter_aln ex_model_gaps ex_alignment =
      Inr (map (\<lambda>r. r\<lparr>seq := map ((!) (seq r)) (kept_columns ex_model_gaps ex_alignment)\<rparr>)
             ex_alignment)"
    using ex_alignment_rect ex_alignment_ascii
    by (intro filter_aln_total) (simp_all add: ex_model_gaps_def list_all_iff gaps_model_exact)
  then show ?thesis
    unfolding ex_kept_gaps by (simp add: ex_alignment_def ex_row_def)
qed

lemma ex_kept_strict: "kept_columns ex_model_strict ex_alignment = []"
proof -
  have "\<not> spec_score ex_model_strict v \<ge> threshold ex_model_strict" for v
    using spec_sigmoid_bounds [of "spec_dot v (logisticModelCoefficients ex_model_strict) +
      logisticModelIntercept ex_model_strict"]
    by (simp add: spec_score_def ex_model_strict_def)
  then show ?thesis by (simp add: kept_columns_def)
qed

lemma ex_filter_strict:
  "filter_aln ex_model_strict ex_alignment = Inr [ex_row [], ex_row []]"
proof -
  have "list_all (\<lambda>r. letter_annotations r = []) ex_alignment"
    by (simp add: ex_alignment_def ex_row_def)
  then have "filter_aln ex_model_strict ex_alignment =
      Inr (map (\<lambda>r. r\<lparr>seq := map ((!) (seq r)) (kept_columns ex_model_strict ex_alignment)\<rparr>)
             ex_alignment)"
    using ex_alignment_rect ex_alignment_ascii
    by (intro filter_aln_total) (simp_all add: ex_model_strict_def list_all_iff gaps_model_exact)
  then show ?thesis
    unfolding ex_kept_strict by (simp add: ex_alignment_def ex_row_def)
qed

lemma ex_mask_gaps: "getMask ex_model_gaps ex_alignment = Inr ''101''"
proof -
  obtain F where F: "alifilter_getAlignmentFeatures ex_alignment = Inr F"
    and S: "getScores ex_model_gaps F =
      Inr (map (\<lambda>i. spec_score ex_model_gaps (feature_row ex_alignment i))
             [0..<get_alignment_length ex_alignment])"
    using getScores_features [of ex_alignment ex_model_gaps] ex_alignment_rect ex_alignment_clean
    by (auto simp: ex_model_gaps_def list_all_iff gaps_model_exact)
  have "[0..<3] = [0, 1, 2::nat]" by (simp add: upt_rec)
  then show ?thesis
    using ex_alignment_rect F S
    by (simp add: getMask_def getMaskFromFeatures_def getMaskFromScores_def ex_gaps_scores ex_gf)
qed

lemma filter_postcondition:
  assumes "filter_aln self alignment = Inr filtered"
  shows "\<exists>F scores. alifilter_getAlignmentFeatures alignment = Inr F \<and>
           getScores self F = Inr scores \<and>
           length scores = get_alignment_length alignment \<and>
           length filtered = length alignment \<and>
           (\<forall>k < length alignment.
              id_rec (filtered ! k) = id_rec (alignment ! k) \<and>
              name (filtered ! k) = name (alignment ! k) \<and>
              description (filtered ! k) = description (alignment ! k) \<and>
              dbxrefs (filtered ! k) = dbxrefs (alignment ! k) \<and>
              features_rec (filtered ! k) = features_rec (alignment ! k) \<and>
              annotations (filtered ! k) = annotations (alignment ! k) \<and>
              letter_annotations (filtered ! k) = letter_annotations (alignment ! k) \<and>
              seq (filtered ! k) =
                map ((!) (seq (alignment ! k)))
                  (filter (\<lambda>i. getMaskFromScores self scores ! i = CHR ''1'')
                     [0..<length scores])) \<and>
           get_alignment_length filtered =
             length (filter (\<lambda>c. c = CHR ''1'') (getMaskFromScores self scores))"
proof -
  from filter_aln_Inr [OF assms] obtain F scores where
    F: "alifilter_getAlignmentFeatures alignment = Inr F"
    and S: "getScores self F = Inr scores"
    and len: "length scores = get_alignment_length alignment"
    and rows: "list_all2 (\<lambda>r r'. filter_row self scores r = Inr r') alignment filtered"
    by blast
  let ?kept = "filter (\<lambda>i. getMaskFromScores self scores ! i = CHR ''1'') [0..<length scores]"
  have same: "length filtered = length alignment"
    using rows by (simp add: list_all2_lengthD)
  have row: "filter_row self scores (alignment ! k) = Inr (filtered ! k)"
    if "k < length alignment" for k
    by (rule list_all2_nthD [OF rows that])
  have fields: "\<forall>k < length alignment.
      id_rec (filtered ! k) = id_rec (alignment ! k) \<and>
      name (filtered ! k) = name (alignment ! k) \<and>
      description (filtered ! k) = description (alignment ! k) \<and>
      dbxrefs (filtered ! k) = dbxrefs (alignment ! k) \<and>
      features_rec (filtered ! k) = features_rec (alignment ! k) \<and>
      annotations (filtered ! k) = annotations (alignment ! k) \<and>
      letter_annotations (filtered ! k) = letter_annotations (alignment ! k) \<and>
      seq (filtered ! k) = map ((!) (seq (alignment ! k))) ?kept"
    using filter_row_Inr [OF row] unfolding mask_filter_indices by blast
  have ones: "length (filter (\<lambda>c. c = CHR ''1'') (getMaskFromScores self scores)) =
      length (filter (\<lambda>x. x \<ge> threshold self) scores)"
    by (simp add: getMaskFromScores_def filter_map comp_def)
  have cols: "get_alignment_length filtered =
      length (filter (\<lambda>c. c = CHR ''1'') (getMaskFromScores self scores))"
  proof (cases alignment)
    case Nil
    with same len show ?thesis by (simp add: getMaskFromScores_def)
  next
    case (Cons r rs)
    with same have ne: "filtered \<noteq> []" by auto
    have "list_all (\<lambda>r'. length (seq r') = length ?kept) filtered"
      using fields same by (simp add: list_all_length)
    from get_alignment_length_same [OF ne this] show ?thesis
      unfolding ones by (simp add: mask_filter_indices count_kept)
  qed
  from F S len same fields cols show ?thesis by blast
qed

lemma filter_returns_if_mask:
  assumes "rectangular a" and "getMask self a = Inr msk"
    and "list_all (\<lambda>r. letter_annotations r = []) a" and "ascii_rows a"
  shows "\<exists>b. filter_aln self a = Inr b"
proof -
  from assms(2) obtain F scores where F: "alifilter_getAlignmentFeatures a = Inr F"
    and S: "getScores self F = Inr scores"
    by (auto simp: getMask_def getMaskFromFeatures_def ebind_eq_Inr)
  have len: "length scores = get_alignment_length a"
    using getScores_Inr [OF S] getAlignmentFeatures_shape [OF F] by simp
  let ?kept = "filter (\<lambda>i. scores ! i \<ge> threshold self) [0..<length scores]"
  have "list_all (\<lambda>r. \<exists>r'. filter_row self scores r = Inr r' \<and> length (seq r') = length ?kept) a"
  proof -
    have "\<exists>r'. filter_row self scores r = Inr r' \<and> length (seq r') = length ?kept"
      if "r \<in> set a" for r
    proof -
      have l: "length (seq r) = length scores" and la: "letter_annotations r = []"
        using that assms(1,3) len by (auto simp: rectangular_def list_all_iff)
      have asc: "list_all (\<lambda>c. (of_char c :: nat) < 128) (seq r)"
        using that assms(4) by (simp add: ascii_rows_def list_all_iff)
      have kasc: "list_all (\<lambda>c. (of_char c :: nat) < 128) (map ((!) (seq r)) ?kept)"
        using asc l by (auto simp: list_all_iff)
      have "kept_letters (seq r) scores (threshold self) [0..<length scores] =
          Inr (map ((!) (seq r)) ?kept)"
        by (rule kept_letters_total) (simp add: list_all_iff l)
      then show ?thesis
        using kasc by (simp add: filter_row_def Seq_new_def SeqRecord_new_def la)
    qed
    then show ?thesis by (simp add: list_all_iff)
  qed
  from extend_total [OF this, of None] obtain b where
    "extend (filter_row self scores) a None = Inr b" by auto
  with F S show ?thesis
    by (simp add: filter_aln_def MultipleSeqAlignment_new_def)
qed

lemma ex_filter_single: "filter_aln ex_model_strict ex_single = Inl TypeError"
proof -
  have F: "alifilter_getAlignmentFeatures ex_single =
      Inr \<lparr>ncols = 6, cells = map (feature_row ex_single) [0..<1]\<rparr>"
    using getAlignmentFeatures_eq [of ex_single] ex_single_rect ex_single_clean by simp
  show ?thesis
    by (simp add: filter_aln_def F getScores_cases ex_model_strict_def)
qed

subsection \<open>The feature matrices of the examples\<close>

lemma ex_single_extracts: "alifilter_getAlignmentFeatures ex_single = Inr ex_single_features"
proof -
  have r1: "rectangular ex_single" and n1: "ex_single \<noteq> []"
    and l1: "get_alignment_length ex_single = 1"
    using ex_single_rect by simp_all
  have mi: "spec_maxIdentityFraction ex_single 0 = 1 / 2"
    by (simp add: spec_maxIdentityFraction_def spec_validChars_def spec_letterCounts_def
        spec_letterCount_def ex_single_def ex_row_def ex_li upt_rec)
  have de: "spec_distanceFromExtremity ex_single 0 = 0"
    by (simp add: spec_distanceFromExtremity_def l1)
  have en: "spec_shannonEntropy ex_single 0 = 0"
    by (simp add: spec_shannonEntropy_def spec_p_def spec_validChars_def spec_letterCounts_def
        spec_letterCount_def ex_single_def ex_row_def ex_li upt_rec)
  have row: "feature_row ex_single 0 = [1 / 2, 1 / 2, 0, 0, 1 / 2, 1 / 2]"
    by (simp add: feature_row_def ex_gf mi de en l1 code_window1_def code_window2_def)
  show ?thesis
    using getAlignmentFeatures_eq [OF r1 n1 ex_single_clean]
    by (simp add: l1 row ex_single_features_def)
qed

lemma ex_alignment_rows:
  "feature_row ex_alignment 0 = [0, 1, 0, 0, 1 / 4, 1 / 6]"
  "feature_row ex_alignment (Suc 0) = [1 / 2, 1 / 2, 1, 0, 1 / 6, 1 / 6]"
  "feature_row ex_alignment 2 = [0, 1, 0, 0, 1 / 4, 1 / 6]"
proof -
  have l3: "get_alignment_length ex_alignment = 3" using ex_alignment_rect by simp
  have mi: "spec_maxIdentityFraction ex_alignment 0 = 1"
    "spec_maxIdentityFraction ex_alignment (Suc 0) = 1 / 2"
    "spec_maxIdentityFraction ex_alignment 2 = 1"
    by (simp_all add: spec_maxIdentityFraction_def spec_validChars_def spec_letterCounts_def
        spec_letterCount_def ex_alignment_def ex_row_def ex_li upt_rec)
  have de: "spec_distanceFromExtremity ex_alignment 0 = 0"
    "spec_distanceFromExtremity ex_alignment (Suc 0) = 1"
    "spec_distanceFromExtremity ex_alignment 2 = 0"
    by (simp_all add: spec_distanceFromExtremity_def l3)
  have en: "spec_shannonEntropy ex_alignment 0 = 0"
    "spec_shannonEntropy ex_alignment (Suc 0) = 0"
    "spec_shannonEntropy ex_alignment 2 = 0"
    by (simp_all add: spec_shannonEntropy_def spec_p_def spec_validChars_def spec_letterCounts_def
        spec_letterCount_def ex_alignment_def ex_row_def ex_li upt_rec)
  have gf2: "spec_gapFraction ex_alignment (Suc (Suc 0)) = 0"
    using ex_gf(3) by (simp add: numeral_2_eq_2)
  show "feature_row ex_alignment 0 = [0, 1, 0, 0, 1 / 4, 1 / 6]"
    by (simp add: feature_row_def ex_gf gf2 mi de en l3 code_window1_def code_window2_def)
  show "feature_row ex_alignment (Suc 0) = [1 / 2, 1 / 2, 1, 0, 1 / 6, 1 / 6]"
    by (simp add: feature_row_def ex_gf gf2 mi de en l3 code_window1_def code_window2_def)
  show "feature_row ex_alignment 2 = [0, 1, 0, 0, 1 / 4, 1 / 6]"
    by (simp add: feature_row_def ex_gf gf2 mi de en l3 code_window1_def code_window2_def)
qed

lemma ex_alignment_extracts: "alifilter_getAlignmentFeatures ex_alignment = Inr ex_features"
proof -
  have "[0..<3] = [0, Suc 0, 2::nat]" by (simp add: upt_rec)
  then show ?thesis
    by (simp add: ex_alignment_features ex_alignment_rows ex_features_def)
qed

subsection \<open>Objects that report their own length\<close>

lemma computeColumnFeatures_obj_eq:
  "alifilter_computeColumnFeatures_obj (get_alignment_length a) a i fm =
     alifilter_computeColumnFeatures a i fm"
  by (simp add: alifilter_computeColumnFeatures_obj_def alifilter_computeColumnFeatures_def)

lemma first_pass_obj_eq:
  "first_pass_obj (get_alignment_length a) a is = first_pass a is"
proof (rule ext, induction "is")
  case Nil
  show ?case by simp
next
  case (Cons i "is")
  have "first_pass_obj (get_alignment_length a) a is = first_pass a is"
    by (rule ext) (rule Cons.IH)
  then show ?case by (simp add: computeColumnFeatures_obj_eq)
qed

lemma getAlignmentFeatures_obj_eq:
  "alifilter_getAlignmentFeatures_obj (get_alignment_length a) a = alifilter_getAlignmentFeatures a"
  by (simp add: alifilter_getAlignmentFeatures_obj_def alifilter_getAlignmentFeatures_def
      first_pass_obj_eq)

lemma getAlignmentFeatures_obj_no_rows:
  assumes "0 < n"
  shows "alifilter_getAlignmentFeatures_obj n [] = Inl ZeroDivisionError"
proof -
  have "[0..<n] = 0 # [1..<n]" using assms by (simp add: upt_conv_Cons)
  then show ?thesis
    by (simp add: alifilter_getAlignmentFeatures_obj_def alifilter_computeColumnFeatures_obj_def)
qed

subsection \<open>Scores of the examples\<close>

lemma ex_zero_scores: "getScores ex_model ex_features = Inr [1 / 2, 1 / 2, 1 / 2]"
proof -
  have e: "list_all (in_exact_range ex_model) (cells ex_features)"
    by (simp add: list_all_iff zero_model_exact ex_model_def)
  have s: "spec_score ex_model v = 1 / 2" for v
    by (simp add: spec_score_def spec_dot_zero spec_sigmoid_def ex_model_def)
  have "getScores ex_model ex_features = Inr (map (spec_score ex_model) (cells ex_features))"
    using e by (intro getScores_exact) (simp_all add: ex_model_def ex_features_def)
  then show ?thesis by (simp add: s ex_features_def)
qed

lemma ex_saturated_scores: "getScores ex_model_saturated ex_features = Inr [1, 1, 1]"
proof -
  have d: "spec_dot v (logisticModelCoefficients ex_model_saturated) = 0" for v
    by (simp add: spec_dot_zero ex_model_saturated_def)
  have "logistic ex_model_saturated 0 = Inr 1"
    by (rule logistic_saturates) (simp add: ex_model_saturated_def)
  then show ?thesis
    by (simp add: getScores_cases d) (simp add: ex_features_def ex_model_saturated_def)
qed

lemma ex_overflow_scores: "getScores ex_model_overflow ex_features = Inl OverflowError"
proof -
  have d: "spec_dot v (logisticModelCoefficients ex_model_overflow) = 0" for v
    by (simp add: spec_dot_zero ex_model_overflow_def)
  have "logistic ex_model_overflow 0 = Inl OverflowError"
    by (rule logistic_overflows) (simp add: ex_model_overflow_def)
  then show ?thesis
    by (simp add: getScores_cases d) (simp add: ex_features_def ex_model_overflow_def)
qed

section \<open>The claims\<close>

subsection \<open>Smoothed gap fractions\<close>

text \<open>
  Claim C2.  On a rectangular alignment with at least one row, none of them holding the
  byte \<^verbatim>\<open>0xDF\<close> (on which the first pass raises and the second is not reached, see
  claim C3), the extraction returns a feature matrix with one row per column.  The
  second pass leaves in it, for every column \<open>i\<close>, as entry 4 the
  average of the gap fractions (entry 0) of the columns that exist among \<open>i-1, i, i+1\<close>
  and entry 5 the same average over \<open>i-2, \<dots>, i+2\<close>, each divided by the number of
  columns that exist.  On an alignment of a single column both equal the gap fraction.
\<close>

theorem windows_average_existing_columns:
  assumes "rectangular alignment" and "alignment \<noteq> []" and "no_sharp_s alignment"
  shows "\<exists>F. alifilter_getAlignmentFeatures alignment = Inr F \<and>
           length (cells F) = get_alignment_length alignment \<and>
           (\<forall>i < get_alignment_length alignment.
              cells F ! i ! 0 = spec_gapFraction alignment i \<and>
              cells F ! i ! 4 =
                spec_window 1 (\<lambda>j. cells F ! j ! 0) (get_alignment_length alignment) i \<and>
              cells F ! i ! 5 =
                spec_window 2 (\<lambda>j. cells F ! j ! 0) (get_alignment_length alignment) i) \<and>
           (get_alignment_length alignment = 1 \<longrightarrow>
              cells F ! 0 ! 4 = cells F ! 0 ! 0 \<and> cells F ! 0 ! 5 = cells F ! 0 ! 0)"
proof -
  let ?L = "get_alignment_length alignment"
  let ?F = "\<lparr>ncols = 6, cells = map (feature_row alignment) [0..<?L]\<rparr>"
  have F: "alifilter_getAlignmentFeatures alignment = Inr ?F"
    using assms by (rule getAlignmentFeatures_eq)
  have g: "\<And>w i. spec_window w (\<lambda>j. cells ?F ! j ! 0) ?L i =
                 spec_window w (spec_gapFraction alignment) ?L i"
    by (rule spec_window_cong) (simp add: feature_row_nth)
  have rows: "\<forall>i < ?L.
      cells ?F ! i ! 0 = spec_gapFraction alignment i \<and>
      cells ?F ! i ! 4 = spec_window 1 (\<lambda>j. cells ?F ! j ! 0) ?L i \<and>
      cells ?F ! i ! 5 = spec_window 2 (\<lambda>j. cells ?F ! j ! 0) ?L i"
    unfolding g by (simp add: feature_row_nth code_window1_spec code_window2_spec)
  have single: "?L = 1 \<longrightarrow> cells ?F ! 0 ! 4 = cells ?F ! 0 ! 0 \<and> cells ?F ! 0 ! 5 = cells ?F ! 0 ! 0"
    by (simp add: feature_row_nth code_window1_def code_window2_def)
  from F rows single show ?thesis
    by (intro exI [of _ ?F]) simp
qed

theorem windows_average_existing_columns_witness:
  "rectangular ex_alignment \<and> ex_alignment \<noteq> [] \<and> no_sharp_s ex_alignment \<and>
   (\<exists>F. alifilter_getAlignmentFeatures ex_alignment = Inr F \<and>
        cells F ! 0 ! 0 = 0 \<and> cells F ! 1 ! 0 = 1 / 2 \<and> cells F ! 2 ! 0 = 0 \<and>
        cells F ! 0 ! 4 = 1 / 4 \<and> cells F ! 1 ! 4 = 1 / 6 \<and> cells F ! 2 ! 4 = 1 / 4 \<and>
        cells F ! 0 ! 5 = 1 / 6 \<and> cells F ! 1 ! 5 = 1 / 6 \<and> cells F ! 2 ! 5 = 1 / 6) \<and>
   rectangular ex_single \<and> ex_single \<noteq> [] \<and> no_sharp_s ex_single \<and>
   get_alignment_length ex_single = 1 \<and>
   (\<exists>F. alifilter_getAlignmentFeatures ex_single = Inr F \<and>
        cells F ! 0 ! 0 = 1 / 2 \<and> cells F ! 0 ! 4 = 1 / 2 \<and> cells F ! 0 ! 5 = 1 / 2)"
proof -
  have r3: "rectangular ex_alignment" and n3: "ex_alignment \<noteq> []"
    and l3: "get_alignment_length ex_alignment = 3"
    using ex_alignment_rect by simp_all
  have r1: "rectangular ex_single" and n1: "ex_single \<noteq> []"
    and l1: "get_alignment_length ex_single = 1"
    using ex_single_rect by simp_all
  obtain F where F: "alifilter_getAlignmentFeatures ex_alignment = Inr F"
    and rows: "\<forall>i < 3. cells F ! i ! 0 = spec_gapFraction ex_alignment i \<and>
        cells F ! i ! 4 = spec_window 1 (\<lambda>j. cells F ! j ! 0) 3 i \<and>
        cells F ! i ! 5 = spec_window 2 (\<lambda>j. cells F ! j ! 0) 3 i"
    using windows_average_existing_columns [OF r3 n3 ex_alignment_clean] unfolding l3 by blast
  have i3: "(0::nat) < 3" "(1::nat) < 3" "(2::nat) < 3" by simp_all
  note R0 = rows [rule_format, OF i3(1)] and R1 = rows [rule_format, OF i3(2)]
    and R2 = rows [rule_format, OF i3(3)]
  have c0: "cells F ! 0 ! 0 = 0" "cells F ! 1 ! 0 = 1 / 2" "cells F ! 2 ! 0 = 0"
    using R0 R1 R2 by (simp_all add: ex_gf)
  have w: "cells F ! 0 ! 4 = 1 / 4" "cells F ! 1 ! 4 = 1 / 6" "cells F ! 2 ! 4 = 1 / 4"
    "cells F ! 0 ! 5 = 1 / 6" "cells F ! 1 ! 5 = 1 / 6" "cells F ! 2 ! 5 = 1 / 6"
    using R0 R1 R2 c0 by (simp_all add: spec_window_range numeral_eq_Suc)
  obtain G where G: "alifilter_getAlignmentFeatures ex_single = Inr G"
    and g0: "cells G ! 0 ! 0 = spec_gapFraction ex_single 0"
    and g45: "cells G ! 0 ! 4 = cells G ! 0 ! 0 \<and> cells G ! 0 ! 5 = cells G ! 0 ! 0"
    using windows_average_existing_columns [OF r1 n1 ex_single_clean] unfolding l1 by auto
  from r3 n3 F c0 w r1 n1 l1 G g0 g45 ex_alignment_clean ex_single_clean show ?thesis
    by (simp add: ex_gf)
qed

subsection \<open>The four statistics of a column\<close>

text \<open>
  Claim C3.  The claim has every character that is neither \<^verbatim>\<open>'-'\<close> nor a letter A--Z after
  case normalisation left out of both counts.  The code does so except for one byte: the
  upper case of \<^verbatim>\<open>chr(223)\<close>, the sharp s, is the two-character string \<^verbatim>\<open>SS\<close>, and
  \<^verbatim>\<open>ord\<close> of it (line 66) raises \<^verbatim>\<open>TypeError\<close>, so no feature is computed at all.  The
  theorem evaluates the extraction on the rectangular alignment with the rows \<^verbatim>\<open>AC\<close>
  and \<^verbatim>\<open>A\<close>, \<^verbatim>\<open>chr(223)\<close>; the character is none of the letters and not the gap
  (\<open>letter_index\<close>).
\<close>

theorem sharp_s_column_raises:
  "rectangular ex_sharp_s \<and> ex_sharp_s \<noteq> [] \<and> get_alignment_length ex_sharp_s = 2 \<and>
   seq (ex_sharp_s ! 1) ! 1 = CHR 0xDF \<and> letter_index (CHR 0xDF) = None \<and>
   alifilter_getAlignmentFeatures ex_sharp_s = Inl TypeError"
proof -
  have "rectangular ex_sharp_s \<and> ex_sharp_s \<noteq> [] \<and> get_alignment_length ex_sharp_s = 2"
    by (simp add: rectangular_def ex_sharp_s_def ex_row_def get_alignment_length_def)
  moreover have "seq (ex_sharp_s ! 1) ! 1 = CHR 0xDF \<and> letter_index (CHR 0xDF) = None"
    by (simp add: ex_sharp_s_def ex_row_def letter_index_def)
  moreover have "alifilter_getAlignmentFeatures ex_sharp_s = Inl TypeError"
    by (simp add: alifilter_getAlignmentFeatures_def ex_sharp_s_def ex_row_def
        get_alignment_length_def upt_rec numpy_zeros_def alifilter_computeColumnFeatures_def
        upper_def ord_def setitem_def Let_def)
  ultimately show ?thesis by simp
qed

subsection \<open>Scores of a feature matrix\<close>

text \<open>
  Claim C1.  \<^verbatim>\<open>getScores\<close> is to return one score per row of the feature matrix, a matrix
  of exactly one row included.  On the feature matrix of a single-column alignment the
  code raises instead: the product has shape \<open>(1, 1)\<close>, \<^verbatim>\<open>numpy.squeeze\<close> leaves a
  zero-dimensional array, and \<^verbatim>\<open>map\<close> cannot iterate over it.  The theorem evaluates
  the code on the alignment with the rows \<^verbatim>\<open>A\<close> and \<^verbatim>\<open>-\<close>.
\<close>

theorem single_row_scores_raise:
  "alifilter_getAlignmentFeatures ex_single = Inr ex_single_features \<and>
   length (cells ex_single_features) = 1 \<and>
   getScores ex_model ex_single_features = Inl TypeError \<and>
   getMask ex_model ex_single = Inl TypeError"
proof -
  have S: "getScores ex_model ex_single_features = Inl TypeError"
    by (simp add: getScores_cases ex_model_def ex_single_features_def)
  from ex_single_extracts S show ?thesis
    by (simp add: getMask_def getMaskFromFeatures_def ex_single_features_def)
qed

subsection \<open>The mask\<close>

text \<open>
  Claim C5.  The claim has the model with all coefficients 0, intercept 0 and the default
  threshold give the score 0.5 for every column and a mask that is all \<^verbatim>\<open>'1'\<close>.  On an
  alignment of a single column the code gives neither a score nor a mask: \<^verbatim>\<open>getScores\<close>
  raises on the feature matrix of one row, by the defect shown under claim C1, and
  \<^verbatim>\<open>getMaskFromScores\<close> is not reached.  The theorem builds the model with the constructor,
  from a configuration without \<^verbatim>\<open>FastThreshold\<close>, and evaluates \<^verbatim>\<open>getMaskFromFeatures\<close> on
  the feature matrix of the alignment with the rows \<^verbatim>\<open>A\<close> and \<^verbatim>\<open>-\<close>.
\<close>

theorem zero_model_single_column_raises:
  "AliFilterModel_init ex_json_zero = Inr ex_model \<and>
   logisticModelCoefficients ex_model = [0, 0, 0, 0, 0, 0] \<and>
   logisticModelIntercept ex_model = 0 \<and> threshold ex_model = 1 / 2 \<and>
   get_alignment_length ex_single = 1 \<and>
   alifilter_getAlignmentFeatures ex_single = Inr ex_single_features \<and>
   getMaskFromFeatures ex_model ex_single_features = Inl TypeError"
proof -
  have init: "AliFilterModel_init ex_json_zero = Inr ex_model"
    by (simp add: AliFilterModel_init_def ex_json_zero_def ex_model_def subscript_def)
  have S: "getScores ex_model ex_single_features = Inl TypeError"
    by (simp add: getScores_cases ex_model_def ex_single_features_def)
  have l1: "get_alignment_length ex_single = 1" using ex_single_rect by simp
  from init S l1 ex_single_extracts show ?thesis
    by (simp add: getMaskFromFeatures_def ex_model_def)
qed

subsection \<open>Malformed configurations\<close>

text \<open>
  Claim C6, as amended.  The constructor has no check of its own.  A configuration
  without the \<^verbatim>\<open>LogisticModel\<close> section, without its \<^verbatim>\<open>Coefficients\<close> or without its
  \<^verbatim>\<open>Intercept\<close> fails in the constructor with the \<^verbatim>\<open>KeyError\<close> of the lookup.  A
  configuration that has them is accepted with any number of coefficients; a number
  other than 6 shows only when a feature matrix of six columns is scored, as the
  \<^verbatim>\<open>ValueError\<close> of the matrix product.
\<close>

theorem malformed_configuration_outcomes:
  "(LogisticModel jsonModel = None \<longrightarrow> AliFilterModel_init jsonModel = Inl KeyError) \<and>
   (\<forall>lm. LogisticModel jsonModel = Some lm \<and> (Coefficients lm = None \<or> Intercept lm = None) \<longrightarrow>
      AliFilterModel_init jsonModel = Inl KeyError) \<and>
   (\<forall>lm cs ic. LogisticModel jsonModel = Some lm \<and> Coefficients lm = Some cs \<and>
        Intercept lm = Some ic \<longrightarrow>
      (\<exists>m. AliFilterModel_init jsonModel = Inr m \<and> logisticModelCoefficients m = cs \<and>
           logisticModelIntercept m = ic \<and>
           (length cs \<noteq> 6 \<longrightarrow> (\<forall>F. ncols F = 6 \<longrightarrow> getScores m F = Inl ValueError))))"
  by (auto simp: AliFilterModel_init_def subscript_def getScores_cases split: option.splits)

theorem malformed_configuration_outcomes_witness:
  "AliFilterModel_init ex_json_no_section = Inl KeyError \<and>
   AliFilterModel_init ex_json_no_intercept = Inl KeyError \<and>
   (\<exists>m. AliFilterModel_init ex_json_five = Inr m \<and>
        logisticModelCoefficients m = [1, 2, 3, 4, 5] \<and>
        getScores m (numpy_zeros 2 6) = Inl ValueError)"
proof -
  have a: "AliFilterModel_init ex_json_no_section = Inl KeyError"
    using malformed_configuration_outcomes [of ex_json_no_section]
    by (simp add: ex_json_no_section_def)
  have b: "AliFilterModel_init ex_json_no_intercept = Inl KeyError"
    using malformed_configuration_outcomes [of ex_json_no_intercept]
    by (simp add: ex_json_no_intercept_def)
  have "\<exists>m. AliFilterModel_init ex_json_five = Inr m \<and>
        logisticModelCoefficients m = [1, 2, 3, 4, 5] \<and>
        logisticModelIntercept m = 0 \<and>
        (length [1, 2, 3, 4, 5 :: real] \<noteq> 6 \<longrightarrow>
           (\<forall>F. ncols F = 6 \<longrightarrow> getScores m F = Inl ValueError))"
    using malformed_configuration_outcomes [of ex_json_five, THEN conjunct2, THEN conjunct2,
        rule_format, of "\<lparr>Coefficients = Some [1, 2, 3, 4, 5], Intercept = Some 0\<rparr>"
        "[1, 2, 3, 4, 5]" 0]
    by (simp add: ex_json_five_def)
  then obtain m where m: "AliFilterModel_init ex_json_five = Inr m"
    "logisticModelCoefficients m = [1, 2, 3, 4, 5]"
    "\<forall>F. ncols F = 6 \<longrightarrow> getScores m F = Inl ValueError"
    by auto
  have "ncols (numpy_zeros 2 6) = 6" by (simp add: numpy_zeros_def)
  with m(3) have "getScores m (numpy_zeros 2 6) = Inl ValueError" by blast
  with a b m(1,2) show ?thesis by blast
qed

text \<open>
  The claim as it was stated fails on a configuration with five coefficients: the
  constructor returns a model.
\<close>

theorem five_coefficients_accepted:
  "AliFilterModel_init ex_json_five =
     Inr \<lparr>logisticModelCoefficients = [1, 2, 3, 4, 5], logisticModelIntercept = 0,
          threshold = 1 / 2\<rparr>"
  by (simp add: AliFilterModel_init_def ex_json_five_def subscript_def)

subsection \<open>Alignments without sequences\<close>




subsection \<open>Ranges of features and scores\<close>

text \<open>
  Claim C8, as amended.  On a rectangular alignment with at least one row, none of them
  holding the byte \<^verbatim>\<open>0xDF\<close>, the extraction returns, and in every column the gap fraction
  and the identity fraction lie in \<open>[0, 1]\<close> and the entropy is not negative.  Every
  score that \<^verbatim>\<open>getScores\<close> returns for the feature matrix, by any model with which the
  dot product does not overflow (\<open>no_overflow\<close>), is above 0 and at most 1: the bound 1
  is reached, because the sum \<^verbatim>\<open>1 + math.exp(-z)\<close> is rounded to \<^verbatim>\<open>1.0\<close> for large
  \<^verbatim>\<open>z\<close>.
\<close>

theorem features_in_range_scores_at_most_one:
  assumes "rectangular alignment" and "alignment \<noteq> []" and "no_sharp_s alignment"
  shows "\<exists>F. alifilter_getAlignmentFeatures alignment = Inr F \<and>
           length (cells F) = get_alignment_length alignment \<and>
           (\<forall>i < get_alignment_length alignment.
              0 \<le> cells F ! i ! 0 \<and> cells F ! i ! 0 \<le> 1 \<and>
              0 \<le> cells F ! i ! 1 \<and> cells F ! i ! 1 \<le> 1 \<and>
              0 \<le> cells F ! i ! 3) \<and>
           (\<forall>self scores.
              list_all (no_overflow self) (cells F) \<and> getScores self F = Inr scores \<longrightarrow>
              length scores = get_alignment_length alignment \<and>
              (\<forall>k < length scores. 0 < scores ! k \<and> scores ! k \<le> 1))"
proof -
  let ?L = "get_alignment_length alignment"
  let ?F = "\<lparr>ncols = 6, cells = map (feature_row alignment) [0..<?L]\<rparr>"
  have F: "alifilter_getAlignmentFeatures alignment = Inr ?F"
    using assms by (rule getAlignmentFeatures_eq)
  have rows: "\<forall>i < ?L.
      0 \<le> cells ?F ! i ! 0 \<and> cells ?F ! i ! 0 \<le> 1 \<and>
      0 \<le> cells ?F ! i ! 1 \<and> cells ?F ! i ! 1 \<le> 1 \<and> 0 \<le> cells ?F ! i ! 3"
    using spec_gapFraction_bounds [OF assms(2)] spec_maxIdentityFraction_bounds [OF assms(2)]
      spec_shannonEntropy_nonneg [of alignment]
    by (simp add: feature_row_nth)
  have sc: "\<forall>self scores.
      list_all (no_overflow self) (cells ?F) \<and> getScores self ?F = Inr scores \<longrightarrow>
      length scores = ?L \<and> (\<forall>k < length scores. 0 < scores ! k \<and> scores ! k \<le> 1)"
  proof (intro allI impI)
    fix self scores
    assume "list_all (no_overflow self) (cells ?F) \<and> getScores self ?F = Inr scores"
    then have S: "getScores self ?F = Inr scores" by (rule conjunct2)
    have len: "length scores = ?L" using getScores_Inr [OF S] by simp
    have "0 < scores ! k \<and> scores ! k \<le> 1" if "k < length scores" for k
      using getScores_range [OF S, of "scores ! k"] that by simp
    with len show "length scores = ?L \<and> (\<forall>k < length scores. 0 < scores ! k \<and> scores ! k \<le> 1)"
      by simp
  qed
  from F rows sc show ?thesis
    by (intro exI [of _ ?F]) simp
qed

theorem features_in_range_scores_at_most_one_witness:
  "rectangular ex_alignment \<and> ex_alignment \<noteq> [] \<and> no_sharp_s ex_alignment \<and>
   (\<exists>F scores. alifilter_getAlignmentFeatures ex_alignment = Inr F \<and>
        0 \<le> cells F ! 1 ! 0 \<and> cells F ! 1 ! 0 \<le> 1 \<and>
        0 \<le> cells F ! 1 ! 1 \<and> cells F ! 1 ! 1 \<le> 1 \<and> 0 \<le> cells F ! 1 ! 3 \<and>
        list_all (no_overflow ex_model) (cells F) \<and>
        getScores ex_model F = Inr scores \<and> length scores = 3 \<and>
        0 < scores ! 1 \<and> scores ! 1 \<le> 1)"
proof -
  have r3: "rectangular ex_alignment" and n3: "ex_alignment \<noteq> []"
    and l3: "get_alignment_length ex_alignment = 3"
    using ex_alignment_rect by simp_all
  obtain F where F: "alifilter_getAlignmentFeatures ex_alignment = Inr F"
    and rows: "\<forall>i < 3. 0 \<le> cells F ! i ! 0 \<and> cells F ! i ! 0 \<le> 1 \<and>
        0 \<le> cells F ! i ! 1 \<and> cells F ! i ! 1 \<le> 1 \<and> 0 \<le> cells F ! i ! 3"
    and sc: "\<forall>self scores.
        list_all (no_overflow self) (cells F) \<and> getScores self F = Inr scores \<longrightarrow>
        length scores = 3 \<and> (\<forall>k < length scores. 0 < scores ! k \<and> scores ! k \<le> 1)"
    using features_in_range_scores_at_most_one [OF r3 n3 ex_alignment_clean]
    unfolding l3 by blast
  have Feq: "F = ex_features"
    using F ex_alignment_extracts by simp
  obtain scores where S: "getScores ex_model F = Inr scores"
    by (simp add: Feq ex_zero_scores)
  have N: "list_all (no_overflow ex_model) (cells F)"
    by (simp add: list_all_iff zero_model_no_overflow ex_model_def)
  have i1: "(1::nat) < 3" by simp
  note R = rows [rule_format, OF i1]
  from sc N S have len: "length scores = 3" and
    all: "\<forall>k < length scores. 0 < scores ! k \<and> scores ! k \<le> 1" by blast+
  from all len have "0 < scores ! 1 \<and> scores ! 1 \<le> 1" by simp
  with r3 n3 ex_alignment_clean F R N S len show ?thesis by blast
qed

text \<open>
  The claim as it was stated has every score strictly below 1.  With all coefficients 0
  and the intercept 64 the three scores of the alignment with the rows \<^verbatim>\<open>A-A\<close> and
  \<^verbatim>\<open>AAA\<close> are exactly 1.
\<close>

theorem saturated_scores_are_one:
  "rectangular ex_alignment \<and> ex_alignment \<noteq> [] \<and>
   alifilter_getAlignmentFeatures ex_alignment = Inr ex_features \<and>
   list_all (no_overflow ex_model_saturated) (cells ex_features) \<and>
   getScores ex_model_saturated ex_features = Inr [1, 1, 1]"
proof -
  have "no_overflow ex_model_saturated v" for v
    by (rule zero_coefficients_no_overflow) (simp_all add: ex_model_saturated_def)
  then have "list_all (no_overflow ex_model_saturated) (cells ex_features)"
    by (simp add: list_all_iff)
  with ex_alignment_rect ex_alignment_extracts ex_saturated_scores show ?thesis by simp
qed

subsection \<open>The filtered alignment\<close>

text \<open>
  Claim C4.  The claim has the filter return, for every alignment and mask derived from
  the scores, an alignment with the rows of the source and the columns the mask keeps; no
  row is dropped and the per-row metadata pass through.  The filter hands the per-letter
  annotations of a row to the constructor of the new row unchanged.  When the mask drops
  a column they no longer have the length of the sequence, the constructor refuses them
  and the filter raises.  The theorem evaluates mask and filter on the alignment with the
  rows \<^verbatim>\<open>A-A\<close>, annotated with three quality values, and \<^verbatim>\<open>AAA\<close>: the mask \<^verbatim>\<open>101\<close> is
  derived, and the filter returns no alignment.
\<close>

theorem annotated_row_blocks_filter:
  "rectangular ex_annotated \<and>
   letter_annotations (ex_annotated ! 0) = [(''quality'', [30, 31, 32])] \<and>
   getMask ex_model_gaps ex_annotated = Inr ''101'' \<and>
   filter_aln ex_model_gaps ex_annotated = Inl ValueError"
proof -
  have rect: "rectangular ex_annotated" and l3: "get_alignment_length ex_annotated = 3"
    by (simp_all add: rectangular_def ex_annotated_def ex_row_def get_alignment_length_def)
  have ne: "ex_annotated \<noteq> []" by (simp add: ex_annotated_def)
  have clean: "no_sharp_s ex_annotated"
    by (simp add: no_sharp_s_def ex_annotated_def ex_row_def)
  have la: "letter_annotations (ex_annotated ! 0) = [(''quality'', [30, 31, 32])]"
    by (simp add: ex_annotated_def ex_row_def)
  let ?scores = "map (\<lambda>i. spec_score ex_model_gaps (feature_row ex_annotated i)) [0..<3]"
  obtain F where F: "alifilter_getAlignmentFeatures ex_annotated = Inr F"
    and S: "getScores ex_model_gaps F = Inr ?scores"
    using getScores_features [of ex_annotated ex_model_gaps] rect l3 clean ne
    by (auto simp: ex_model_gaps_def list_all_iff gaps_model_exact)
  have gf: "spec_gapFraction ex_annotated 0 = 0" "spec_gapFraction ex_annotated (Suc 0) = 1 / 2"
    "spec_gapFraction ex_annotated 2 = 0"
    by (simp_all add: spec_gapFraction_def spec_gapCount_def ex_annotated_def ex_row_def)
  have sc: "(spec_score ex_model_gaps (feature_row ex_annotated i) \<ge> 1 / 2)
      = (spec_gapFraction ex_annotated i \<le> 1 / 4)" for i
  proof -
    have e: "spec_score ex_model_gaps (feature_row ex_annotated i) =
        spec_sigmoid (1 / 4 - spec_gapFraction ex_annotated i)"
      by (simp add: spec_score_def spec_dot_def feature_row_def ex_model_gaps_def)
    show ?thesis unfolding e spec_sigmoid_half by auto
  qed
  have u: "[0..<3] = [0, Suc 0, 2::nat]" by (simp add: upt_rec)
  have t: "threshold ex_model_gaps = 1 / 2" by (simp add: ex_model_gaps_def)
  have k0: "spec_score ex_model_gaps (feature_row ex_annotated 0) \<ge> 1 / 2"
    and k1: "\<not> spec_score ex_model_gaps (feature_row ex_annotated (Suc 0)) \<ge> 1 / 2"
    and k2: "spec_score ex_model_gaps (feature_row ex_annotated 2) \<ge> 1 / 2"
    unfolding sc gf by simp_all
  have m: "getMaskFromScores ex_model_gaps ?scores = ''101''"
    unfolding u getMaskFromScores_def t using k0 k1 k2 by simp
  have M: "getMask ex_model_gaps ex_annotated = Inr ''101''"
    using F S m by (simp add: getMask_def getMaskFromFeatures_def)
  have kept: "kept_letters ''A-A'' ?scores (1 / 2) [0..<length ?scores] = Inr ''AA''"
    unfolding u using k0 k1 k2 by simp
  have "filter_row ex_model_gaps ?scores (ex_annotated ! 0) = Inl ValueError"
    using kept
    by (simp add: filter_row_def t ex_annotated_def ex_row_def Seq_new_def SeqRecord_new_def)
  then have "extend (filter_row ex_model_gaps ?scores) ex_annotated None = Inl ValueError"
    by (simp add: ex_annotated_def)
  with F S have "filter_aln ex_model_gaps ex_annotated = Inl ValueError"
    by (simp add: filter_aln_def MultipleSeqAlignment_new_def)
  with rect la M show ?thesis by (intro conjI)
qed

subsection \<open>A threshold above one\<close>

text \<open>
  Claim C9.  With a threshold above 1 the filter is to return, for every input
  alignment, an alignment without columns.  On an alignment of a single column the code
  raises instead, before any row is built: the scores cannot be computed, by the defect
  shown under claim C1.  The theorem evaluates the filter, with threshold 2, on the
  alignment with the rows \<^verbatim>\<open>A\<close> and \<^verbatim>\<open>-\<close>.
\<close>

theorem strict_threshold_single_column_raises:
  "threshold ex_model_strict > 1 \<and> rectangular ex_single \<and>
   get_alignment_length ex_single = 1 \<and>
   filter_aln ex_model_strict ex_single = Inl TypeError"
  using ex_single_rect ex_filter_single by (simp add: ex_model_strict_def)

subsection \<open>Mask and filter decide alike\<close>

text \<open>
  Claim C10.  Where \<^verbatim>\<open>getMask\<close> and \<^verbatim>\<open>filter\<close> both return on the same model and
  alignment, the mask has one character per source column and the filter keeps of every
  row exactly the letters at the columns whose mask character is \<^verbatim>\<open>'1'\<close>.
\<close>

theorem mask_and_filter_agree:
  assumes "getMask self alignment = Inr msk" and "filter_aln self alignment = Inr filtered"
  shows "length msk = get_alignment_length alignment \<and>
         length filtered = length alignment \<and>
         (\<forall>k < length alignment.
            seq (filtered ! k) =
              map ((!) (seq (alignment ! k)))
                (filter (\<lambda>i. msk ! i = CHR ''1'') [0..<length msk]))"
proof -
  from filter_aln_Inr [OF assms(2)] obtain F scores where
    F: "alifilter_getAlignmentFeatures alignment = Inr F"
    and S: "getScores self F = Inr scores"
    and len: "length scores = get_alignment_length alignment"
    and rows: "list_all2 (\<lambda>r r'. filter_row self scores r = Inr r') alignment filtered"
    by blast
  have mk: "msk = getMaskFromScores self scores"
    using assms(1) F S by (simp add: getMask_def getMaskFromFeatures_def)
  have ml': "length (getMaskFromScores self scores) = length scores"
    by (simp add: getMaskFromScores_def)
  have ml: "length msk = length scores"
    by (simp add: mk ml')
  have "seq (filtered ! k) =
      map ((!) (seq (alignment ! k))) (filter (\<lambda>i. msk ! i = CHR ''1'') [0..<length msk])"
    if "k < length alignment" for k
  proof -
    have "filter_row self scores (alignment ! k) = Inr (filtered ! k)"
      by (rule list_all2_nthD [OF rows that])
    from filter_row_Inr [OF this] show ?thesis
      unfolding mk ml' mask_filter_indices by simp
  qed
  with ml len rows show ?thesis by (simp add: list_all2_lengthD)
qed

theorem mask_and_filter_agree_witness:
  "getMask ex_model_gaps ex_alignment = Inr ''101'' \<and>
   filter_aln ex_model_gaps ex_alignment = Inr [ex_row ''AA'', ex_row ''AA''] \<and>
   length ''101'' = get_alignment_length ex_alignment \<and>
   length [ex_row ''AA'', ex_row ''AA''] = length ex_alignment \<and>
   seq ([ex_row ''AA'', ex_row ''AA''] ! 0) =
     map ((!) (seq (ex_alignment ! 0))) (filter (\<lambda>i. ''101'' ! i = CHR ''1'') [0..<length ''101'']) \<and>
   seq ([ex_row ''AA'', ex_row ''AA''] ! 1) =
     map ((!) (seq (ex_alignment ! 1))) (filter (\<lambda>i. ''101'' ! i = CHR ''1'') [0..<length ''101''])"
proof -
  have k: "(0::nat) < length ex_alignment" "(1::nat) < length ex_alignment"
    by (simp_all add: ex_alignment_def)
  note T = mask_and_filter_agree [OF ex_mask_gaps ex_filter_gaps]
  note rows = T [THEN conjunct2, THEN conjunct2]
  show ?thesis
    apply (intro conjI)
         apply (rule ex_mask_gaps)
        apply (rule ex_filter_gaps)
       apply (rule T [THEN conjunct1])
      apply (rule T [THEN conjunct2, THEN conjunct1])
     apply (rule rows [rule_format, OF k(1)])
    apply (rule rows [rule_format, OF k(2)])
    done
qed

section \<open>Further properties\<close>

text \<open>
  The four statistics of a column.  On a rectangular alignment with at least one row, none
  of them holding the byte \<^verbatim>\<open>0xDF\<close>, the extraction returns, and for every column \<open>i\<close>:
  entry 0 is the number of gaps over the number of rows; entry 1 is the largest letter
  count over the number of rows, or 0 when the column holds no letter; entry 3 is
  \<open>- \<Sum> p ln p\<close> over the letters that occur, with \<open>p\<close> the count of the letter over
  the number of letters, or 0 when there is none; entry 2 is the distance to the nearer
  end.  A \<^verbatim>\<open>'-'\<close> counts as a gap, a letter A--Z or a--z counts for its letter whatever
  its case, and every other character counts for neither (\<open>letter_index\<close>).
\<close>

theorem column_features_formulas:
  assumes "rectangular alignment" and "alignment \<noteq> []" and "no_sharp_s alignment"
    and "i < get_alignment_length alignment"
  shows "\<exists>F. alifilter_getAlignmentFeatures alignment = Inr F \<and>
           cells F ! i ! 0 = spec_gapFraction alignment i \<and>
           cells F ! i ! 1 = spec_maxIdentityFraction alignment i \<and>
           cells F ! i ! 2 = real_of_int (spec_distanceFromExtremity alignment i) \<and>
           cells F ! i ! 3 = spec_shannonEntropy alignment i"
  using getAlignmentFeatures_eq [OF assms(1,2,3)] assms(4)
  by (simp add: feature_row_nth)

theorem column_features_formulas_witness:
  "rectangular ex_mixed \<and> ex_mixed \<noteq> [] \<and> no_sharp_s ex_mixed \<and>
   0 < get_alignment_length ex_mixed \<and> 1 < get_alignment_length ex_mixed \<and>
   (\<exists>F. alifilter_getAlignmentFeatures ex_mixed = Inr F \<and>
        cells F ! 0 ! 0 = 1 / 4 \<and> cells F ! 0 ! 1 = 1 / 2 \<and> cells F ! 0 ! 2 = 0 \<and>
        cells F ! 0 ! 3 = - (2 / 3 * ln (2 / 3)) - 1 / 3 * ln (1 / 3) \<and>
        cells F ! 1 ! 0 = 1 / 4 \<and> cells F ! 1 ! 1 = 1 / 4 \<and> cells F ! 1 ! 2 = 0 \<and>
        cells F ! 1 ! 3 = - ln (1 / 2))"
proof -
  have r: "rectangular ex_mixed" and n: "ex_mixed \<noteq> []"
    and l: "get_alignment_length ex_mixed = 2"
    by (simp_all add: rectangular_def ex_mixed_def ex_row_def get_alignment_length_def)
  have c: "no_sharp_s ex_mixed"
    by (simp add: no_sharp_s_def ex_mixed_def ex_row_def)
  have i0: "0 < get_alignment_length ex_mixed" and i1: "1 < get_alignment_length ex_mixed"
    by (simp_all add: l)
  have li: "letter_index CHR ''a'' = Some 0" "letter_index CHR ''A'' = Some 0"
    "letter_index CHR ''c'' = Some 2" "letter_index CHR ''C'' = Some 2"
    "letter_index CHR ''x'' = Some 23" "letter_index CHR ''?'' = None"
    "letter_index CHR ''-'' = None"
    by (simp_all add: letter_index_def)
  have gf: "spec_gapFraction ex_mixed 0 = 1 / 4" "spec_gapFraction ex_mixed 1 = 1 / 4"
    by (simp_all add: spec_gapFraction_def spec_gapCount_def ex_mixed_def ex_row_def)
  have mi: "spec_maxIdentityFraction ex_mixed 0 = 1 / 2"
    "spec_maxIdentityFraction ex_mixed 1 = 1 / 4"
    by (simp_all add: spec_maxIdentityFraction_def spec_validChars_def spec_letterCounts_def
        spec_letterCount_def ex_mixed_def ex_row_def li upt_rec)
  have de: "spec_distanceFromExtremity ex_mixed 0 = 0" "spec_distanceFromExtremity ex_mixed 1 = 0"
    by (simp_all add: spec_distanceFromExtremity_def l)
  have en: "spec_shannonEntropy ex_mixed 0 = - (2 / 3 * ln (2 / 3)) - 1 / 3 * ln (1 / 3)"
    "spec_shannonEntropy ex_mixed 1 = - ln (1 / 2)"
    by (simp_all add: spec_shannonEntropy_def spec_p_def spec_validChars_def
        spec_letterCounts_def spec_letterCount_def ex_mixed_def ex_row_def li upt_rec)
  obtain F where F: "alifilter_getAlignmentFeatures ex_mixed = Inr F"
    and c0: "cells F ! 0 ! 0 = 1 / 4 \<and> cells F ! 0 ! 1 = 1 / 2 \<and> cells F ! 0 ! 2 = 0 \<and>
        cells F ! 0 ! 3 = - (2 / 3 * ln (2 / 3)) - 1 / 3 * ln (1 / 3)"
    using column_features_formulas [OF r n c i0] unfolding gf mi de en by auto
  obtain G where G: "alifilter_getAlignmentFeatures ex_mixed = Inr G"
    and c1: "cells G ! 1 ! 0 = 1 / 4 \<and> cells G ! 1 ! 1 = 1 / 4 \<and> cells G ! 1 ! 2 = 0 \<and>
        cells G ! 1 ! 3 = - ln (1 / 2)"
    using column_features_formulas [OF r n c i1] unfolding gf mi de en by auto
  from F G have "G = F" by simp
  with r n c i0 i1 F c0 c1 show ?thesis by blast
qed

text \<open>
  The mask as a threshold test.  The mask of a sequence of scores has the length of the
  sequence, and its \<open>i\<close>-th character is \<^verbatim>\<open>'1'\<close> if the \<open>i\<close>-th score is at least the
  threshold of the model and \<^verbatim>\<open>'0'\<close> otherwise; the threshold is the configured
  \<^verbatim>\<open>FastThreshold\<close>, or 0.5 when the configuration has none.  With all coefficients 0,
  intercept 0 and threshold 0.5, on a feature matrix with as many columns as coefficients
  and a row count other than 1, the scores are returned, every score is 0.5 and the mask
  is all \<^verbatim>\<open>'1'\<close>.
\<close>

theorem mask_is_threshold_test:
  "length (getMaskFromScores self scores) = length scores \<and>
   (\<forall>i < length scores.
      getMaskFromScores self scores ! i =
        (if scores ! i \<ge> threshold self then CHR ''1'' else CHR ''0'')) \<and>
   (\<forall>jsonModel m. AliFilterModel_init jsonModel = Inr m \<longrightarrow>
      threshold m = (case FastThreshold jsonModel of Some t \<Rightarrow> t | None \<Rightarrow> 0.5)) \<and>
   (\<forall>z F. list_all (\<lambda>c. c = 0) (logisticModelCoefficients z) \<and>
            logisticModelIntercept z = 0 \<and> threshold z = 0.5 \<and>
            ncols F = length (logisticModelCoefficients z) \<and> length (cells F) \<noteq> 1 \<longrightarrow>
      getScores z F = Inr (replicate (length (cells F)) 0.5) \<and>
      getMaskFromScores z (replicate (length (cells F)) 0.5) =
        replicate (length (cells F)) CHR ''1'')"
proof -
  have a: "length (getMaskFromScores self scores) = length scores"
    by (simp add: getMaskFromScores_def)
  have b: "\<forall>i < length scores. getMaskFromScores self scores ! i =
        (if scores ! i \<ge> threshold self then CHR ''1'' else CHR ''0'')"
    by (simp add: getMaskFromScores_def)
  have c: "\<forall>jsonModel m. AliFilterModel_init jsonModel = Inr m \<longrightarrow>
      threshold m = (case FastThreshold jsonModel of Some t \<Rightarrow> t | None \<Rightarrow> 0.5)"
    by (auto simp: AliFilterModel_init_def subscript_def ebind_eq_Inr split: option.splits)
  have d: "getScores z F = Inr (replicate (length (cells F)) 0.5) \<and>
      getMaskFromScores z (replicate (length (cells F)) 0.5) =
        replicate (length (cells F)) CHR ''1''"
    if z: "list_all (\<lambda>c. c = 0) (logisticModelCoefficients z)" "logisticModelIntercept z = 0"
      "threshold z = 0.5"
      and sh: "ncols F = length (logisticModelCoefficients z)" "length (cells F) \<noteq> 1" for z F
  proof -
    have sc: "spec_score z v = 1 / 2" for v
      using z by (simp add: spec_score_def spec_dot_zero spec_sigmoid_def)
    have m: "map (spec_score z) (cells F) = replicate (length (cells F)) (1 / 2)"
      by (intro nth_equalityI) (simp_all add: sc)
    have "getScores z F = Inr (map (spec_score z) (cells F))"
      using sh z by (intro getScores_exact) (simp_all add: list_all_iff zero_model_exact)
    then show ?thesis using z by (simp add: m getMaskFromScores_def)
  qed
  from a b c d show ?thesis by blast
qed

theorem mask_is_threshold_test_witness:
  "length (getMaskFromScores ex_model [3 / 4, 1 / 2, 1 / 4]) = 3 \<and>
   getMaskFromScores ex_model [3 / 4, 1 / 2, 1 / 4] ! 0 = CHR ''1'' \<and>
   getMaskFromScores ex_model [3 / 4, 1 / 2, 1 / 4] ! 1 = CHR ''1'' \<and>
   getMaskFromScores ex_model [3 / 4, 1 / 2, 1 / 4] ! 2 = CHR ''0'' \<and>
   AliFilterModel_init ex_json_zero = Inr ex_model \<and> threshold ex_model = 1 / 2 \<and>
   (\<exists>F s. alifilter_getAlignmentFeatures ex_alignment = Inr F \<and> getScores ex_model F = Inr s \<and>
          s = [1 / 2, 1 / 2, 1 / 2] \<and> getMaskFromScores ex_model s = ''111'')"
proof -
  let ?F = "\<lparr>ncols = 6, cells = map (feature_row ex_alignment) [0..<3]\<rparr>"
  let ?s = "replicate (length (cells ?F)) (0.5::real)"
  have init: "AliFilterModel_init ex_json_zero = Inr ex_model"
    by (simp add: AliFilterModel_init_def ex_json_zero_def ex_model_def subscript_def)
  have z: "list_all (\<lambda>c. c = 0) (logisticModelCoefficients ex_model) \<and>
      logisticModelIntercept ex_model = 0 \<and> threshold ex_model = 0.5 \<and>
      ncols ?F = length (logisticModelCoefficients ex_model) \<and> length (cells ?F) \<noteq> 1"
    by (simp add: ex_model_def)
  note T = mask_is_threshold_test [of ex_model "[3 / 4, 1 / 2, 1 / 4]"]
  have len: "length (getMaskFromScores ex_model [3 / 4, 1 / 2, 1 / 4]) = 3"
    using T by simp
  have i3: "(0::nat) < length [3 / 4, 1 / 2, 1 / 4 :: real]"
    "(1::nat) < length [3 / 4, 1 / 2, 1 / 4 :: real]"
    "(2::nat) < length [3 / 4, 1 / 2, 1 / 4 :: real]" by simp_all
  have th: "threshold ex_model = 1 / 2" by (simp add: ex_model_def)
  have m0: "getMaskFromScores ex_model [3 / 4, 1 / 2, 1 / 4] ! 0 = CHR ''1''"
    using T [THEN conjunct2, THEN conjunct1, rule_format, OF i3(1)] by (simp add: th)
  have m1: "getMaskFromScores ex_model [3 / 4, 1 / 2, 1 / 4] ! 1 = CHR ''1''"
    using T [THEN conjunct2, THEN conjunct1, rule_format, OF i3(2)] by (simp add: th)
  have m2: "getMaskFromScores ex_model [3 / 4, 1 / 2, 1 / 4] ! 2 = CHR ''0''"
    using T [THEN conjunct2, THEN conjunct1, rule_format, OF i3(3)] by (simp add: th)
  have zz: "getScores ex_model ?F = Inr ?s \<and>
      getMaskFromScores ex_model ?s = replicate (length (cells ?F)) CHR ''1''"
    using T [THEN conjunct2, THEN conjunct2, THEN conjunct2, rule_format, OF z] .
  then have S: "getScores ex_model ?F = Inr ?s" by (rule conjunct1)
  have v: "?s = [1 / 2, 1 / 2, 1 / 2]" "getMaskFromScores ex_model ?s = ''111''"
    using zz by (simp_all add: numeral_eq_Suc)
  have "\<exists>F s. alifilter_getAlignmentFeatures ex_alignment = Inr F \<and> getScores ex_model F = Inr s \<and>
          s = [1 / 2, 1 / 2, 1 / 2] \<and> getMaskFromScores ex_model s = ''111''"
    using ex_alignment_features S v by (intro exI [of _ ?F] exI [of _ ?s] conjI)
  with len m0 m1 m2 init th show ?thesis by blast
qed

text \<open>
  What the filter returns.  On a rectangular alignment of ASCII text for which a mask is
  derived from the scores and whose rows carry no per-letter annotations the filter
  returns an alignment.  Whenever the filter returns an alignment, it has the rows of
  the source in the same number and order; the identifier, name, description, cross references,
  features, annotations and per-letter annotations of every row are those of the source
  row; the sequence of every row consists of the source letters at the columns whose
  mask character (the mask being derived from the scores, one per source column) is
  \<^verbatim>\<open>'1'\<close>, in source order; and its column count is the number of \<^verbatim>\<open>'1'\<close> in the mask.
\<close>

theorem filter_keeps_rows_and_masked_columns:
  "(filter_aln self alignment = Inr filtered \<longrightarrow>
      (\<exists>F scores. alifilter_getAlignmentFeatures alignment = Inr F \<and>
              getScores self F = Inr scores \<and>
              length scores = get_alignment_length alignment \<and>
              length filtered = length alignment \<and>
              (\<forall>k < length alignment.
                 id_rec (filtered ! k) = id_rec (alignment ! k) \<and>
                 name (filtered ! k) = name (alignment ! k) \<and>
                 description (filtered ! k) = description (alignment ! k) \<and>
                 dbxrefs (filtered ! k) = dbxrefs (alignment ! k) \<and>
                 features_rec (filtered ! k) = features_rec (alignment ! k) \<and>
                 annotations (filtered ! k) = annotations (alignment ! k) \<and>
                 letter_annotations (filtered ! k) = letter_annotations (alignment ! k) \<and>
                 seq (filtered ! k) =
                   map ((!) (seq (alignment ! k)))
                     (filter (\<lambda>i. getMaskFromScores self scores ! i = CHR ''1'')
                        [0..<length scores])) \<and>
              get_alignment_length filtered =
                length (filter (\<lambda>c. c = CHR ''1'') (getMaskFromScores self scores)))) \<and>
   (rectangular alignment \<and> getMask self alignment = Inr msk \<and>
      list_all (\<lambda>r. letter_annotations r = []) alignment \<and> ascii_rows alignment \<longrightarrow>
      (\<exists>returned. filter_aln self alignment = Inr returned))"
proof (intro conjI impI)
  assume "filter_aln self alignment = Inr filtered"
  then show "\<exists>F scores. alifilter_getAlignmentFeatures alignment = Inr F \<and>
             getScores self F = Inr scores \<and>
             length scores = get_alignment_length alignment \<and>
             length filtered = length alignment \<and>
             (\<forall>k < length alignment.
                id_rec (filtered ! k) = id_rec (alignment ! k) \<and>
                name (filtered ! k) = name (alignment ! k) \<and>
                description (filtered ! k) = description (alignment ! k) \<and>
                dbxrefs (filtered ! k) = dbxrefs (alignment ! k) \<and>
                features_rec (filtered ! k) = features_rec (alignment ! k) \<and>
                annotations (filtered ! k) = annotations (alignment ! k) \<and>
                letter_annotations (filtered ! k) = letter_annotations (alignment ! k) \<and>
                seq (filtered ! k) =
                  map ((!) (seq (alignment ! k)))
                    (filter (\<lambda>i. getMaskFromScores self scores ! i = CHR ''1'')
                       [0..<length scores])) \<and>
             get_alignment_length filtered =
               length (filter (\<lambda>c. c = CHR ''1'') (getMaskFromScores self scores))"
    by (rule filter_postcondition)
next
  assume "rectangular alignment \<and> getMask self alignment = Inr msk \<and>
      list_all (\<lambda>r. letter_annotations r = []) alignment \<and> ascii_rows alignment"
  then show "\<exists>returned. filter_aln self alignment = Inr returned"
    using filter_returns_if_mask by blast
qed


theorem filter_keeps_rows_and_masked_columns_witness:
  "rectangular ex_alignment \<and> getMask ex_model_gaps ex_alignment = Inr ''101'' \<and>
   list_all (\<lambda>r. letter_annotations r = []) ex_alignment \<and> ascii_rows ex_alignment \<and>
   (\<exists>returned. filter_aln ex_model_gaps ex_alignment = Inr returned) \<and>
   filter_aln ex_model_gaps ex_alignment = Inr [ex_row ''AA'', ex_row ''AA''] \<and>
   (\<exists>F scores. alifilter_getAlignmentFeatures ex_alignment = Inr F \<and>
      getScores ex_model_gaps F = Inr scores \<and> length scores = 3 \<and>
      length [ex_row ''AA'', ex_row ''AA''] = length ex_alignment \<and>
      id_rec ([ex_row ''AA'', ex_row ''AA''] ! 1) = id_rec (ex_alignment ! 1) \<and>
      letter_annotations ([ex_row ''AA'', ex_row ''AA''] ! 1) =
        letter_annotations (ex_alignment ! 1) \<and>
      seq ([ex_row ''AA'', ex_row ''AA''] ! 0) =
        map ((!) (seq (ex_alignment ! 0)))
          (filter (\<lambda>i. getMaskFromScores ex_model_gaps scores ! i = CHR ''1'')
             [0..<length scores]) \<and>
      get_alignment_length [ex_row ''AA'', ex_row ''AA''] =
        length (filter (\<lambda>c. c = CHR ''1'') (getMaskFromScores ex_model_gaps scores)))"
proof -
  have l3: "get_alignment_length ex_alignment = 3" and l2: "length ex_alignment = 2"
    using ex_alignment_rect by (simp_all add: ex_alignment_def)
  have k: "(0::nat) < 2" "(1::nat) < 2" by simp_all
  have r: "rectangular ex_alignment" using ex_alignment_rect by simp
  have la: "list_all (\<lambda>r. letter_annotations r = []) ex_alignment"
    by (simp add: ex_alignment_def ex_row_def)
  note W = filter_keeps_rows_and_masked_columns
    [of ex_model_gaps ex_alignment "[ex_row ''AA'', ex_row ''AA'']" "''101''"]
  note T = W [THEN conjunct1, THEN mp, OF ex_filter_gaps, unfolded l2 l3]
  note P = W [THEN conjunct2, THEN mp,
      OF conjI [OF r conjI [OF ex_mask_gaps conjI [OF la ex_alignment_ascii]]]]
  from T obtain F where "\<exists>scores. alifilter_getAlignmentFeatures ex_alignment = Inr F \<and>
      getScores ex_model_gaps F = Inr scores \<and> length scores = 3 \<and>
      length [ex_row ''AA'', ex_row ''AA''] = (2::nat) \<and>
      (\<forall>k < 2.
        id_rec ([ex_row ''AA'', ex_row ''AA''] ! k) = id_rec (ex_alignment ! k) \<and>
        name ([ex_row ''AA'', ex_row ''AA''] ! k) = name (ex_alignment ! k) \<and>
        description ([ex_row ''AA'', ex_row ''AA''] ! k) = description (ex_alignment ! k) \<and>
        dbxrefs ([ex_row ''AA'', ex_row ''AA''] ! k) = dbxrefs (ex_alignment ! k) \<and>
        features_rec ([ex_row ''AA'', ex_row ''AA''] ! k) = features_rec (ex_alignment ! k) \<and>
        annotations ([ex_row ''AA'', ex_row ''AA''] ! k) = annotations (ex_alignment ! k) \<and>
        letter_annotations ([ex_row ''AA'', ex_row ''AA''] ! k) =
          letter_annotations (ex_alignment ! k) \<and>
        seq ([ex_row ''AA'', ex_row ''AA''] ! k) =
          map ((!) (seq (ex_alignment ! k)))
            (filter (\<lambda>i. getMaskFromScores ex_model_gaps scores ! i = CHR ''1'')
               [0..<length scores])) \<and>
      get_alignment_length [ex_row ''AA'', ex_row ''AA''] =
        length (filter (\<lambda>c. c = CHR ''1'') (getMaskFromScores ex_model_gaps scores))" ..
  then obtain scores where H: "alifilter_getAlignmentFeatures ex_alignment = Inr F \<and>
      getScores ex_model_gaps F = Inr scores \<and> length scores = 3 \<and>
      length [ex_row ''AA'', ex_row ''AA''] = (2::nat) \<and>
      (\<forall>k < 2.
        id_rec ([ex_row ''AA'', ex_row ''AA''] ! k) = id_rec (ex_alignment ! k) \<and>
        name ([ex_row ''AA'', ex_row ''AA''] ! k) = name (ex_alignment ! k) \<and>
        description ([ex_row ''AA'', ex_row ''AA''] ! k) = description (ex_alignment ! k) \<and>
        dbxrefs ([ex_row ''AA'', ex_row ''AA''] ! k) = dbxrefs (ex_alignment ! k) \<and>
        features_rec ([ex_row ''AA'', ex_row ''AA''] ! k) = features_rec (ex_alignment ! k) \<and>
        annotations ([ex_row ''AA'', ex_row ''AA''] ! k) = annotations (ex_alignment ! k) \<and>
        letter_annotations ([ex_row ''AA'', ex_row ''AA''] ! k) =
          letter_annotations (ex_alignment ! k) \<and>
        seq ([ex_row ''AA'', ex_row ''AA''] ! k) =
          map ((!) (seq (ex_alignment ! k)))
            (filter (\<lambda>i. getMaskFromScores ex_model_gaps scores ! i = CHR ''1'')
               [0..<length scores])) \<and>
      get_alignment_length [ex_row ''AA'', ex_row ''AA''] =
        length (filter (\<lambda>c. c = CHR ''1'') (getMaskFromScores ex_model_gaps scores))" ..
  note F = H [THEN conjunct1]
    and S = H [THEN conjunct2, THEN conjunct1]
    and n = H [THEN conjunct2, THEN conjunct2, THEN conjunct1]
    and rows = H [THEN conjunct2, THEN conjunct2, THEN conjunct2, THEN conjunct2, THEN conjunct1]
    and cols = H [THEN conjunct2, THEN conjunct2, THEN conjunct2, THEN conjunct2, THEN conjunct2]
  note R0 = rows [rule_format, OF k(1)] and R1 = rows [rule_format, OF k(2)]
  have len: "length [ex_row ''AA'', ex_row ''AA''] = length ex_alignment"
    by (simp add: l2)
  show ?thesis
    apply (rule conjI [OF r])
    apply (rule conjI [OF ex_mask_gaps])
    apply (rule conjI [OF la])
    apply (rule conjI [OF ex_alignment_ascii])
    apply (rule conjI [OF P])
    apply (rule conjI [OF ex_filter_gaps])
    apply (rule exI [of _ F], rule exI [of _ scores])
    apply (intro conjI)
           apply (rule F)
          apply (rule S)
         apply (rule n)
        apply (rule len)
       apply (rule R1 [THEN conjunct1])
      apply (rule R1 [THEN conjunct2, THEN conjunct2, THEN conjunct2, THEN conjunct2,
          THEN conjunct2, THEN conjunct2, THEN conjunct1])
     apply (rule R0 [THEN conjunct2, THEN conjunct2, THEN conjunct2, THEN conjunct2,
          THEN conjunct2, THEN conjunct2, THEN conjunct2])
    apply (rule cols)
    done
qed

text \<open>
  A threshold above 1.  No score exceeds 1, so no score reaches such a threshold, and
  every alignment the filter returns has all the rows of the source and no column.
\<close>

theorem unreachable_threshold_drops_all:
  assumes "threshold self > 1" and "filter_aln self alignment = Inr filtered"
  shows "get_alignment_length filtered = 0 \<and> length filtered = length alignment \<and>
         list_all (\<lambda>r. seq r = []) filtered"
proof -
  from filter_aln_Inr [OF assms(2)] obtain F scores where
    S: "getScores self F = Inr scores"
    and rows: "list_all2 (\<lambda>r r'. filter_row self scores r = Inr r') alignment filtered"
    by blast
  have low: "\<not> scores ! i \<ge> threshold self" if "i < length scores" for i
  proof -
    have "scores ! i \<le> 1"
      using getScores_range [OF S, of "scores ! i"] that by simp
    with assms(1) show ?thesis by simp
  qed
  have none: "filter (\<lambda>i. scores ! i \<ge> threshold self) [0..<length scores] = []"
    by (simp add: filter_empty_conv low)
  have empty: "seq r' = []" if "r' \<in> set filtered" for r'
  proof -
    from that rows obtain r where "filter_row self scores r = Inr r'"
      by (auto simp: in_set_conv_nth list_all2_conv_all_nth)
    from filter_row_Inr [OF this] show ?thesis by (simp add: none)
  qed
  then have all: "list_all (\<lambda>r. seq r = []) filtered"
    by (simp add: list_all_iff)
  then have "get_alignment_length filtered = 0"
    by (cases "filtered = []") (simp_all add: get_alignment_length_same)
  with all rows show ?thesis by (simp add: list_all2_lengthD)
qed

theorem unreachable_threshold_drops_all_witness:
  "threshold ex_model_strict > 1 \<and>
   filter_aln ex_model_strict ex_alignment = Inr [ex_row [], ex_row []] \<and>
   get_alignment_length [ex_row [], ex_row []] = 0 \<and>
   length [ex_row [], ex_row []] = length ex_alignment \<and>
   list_all (\<lambda>r. seq r = []) [ex_row [], ex_row []]"
proof -
  have t: "threshold ex_model_strict > 1" by (simp add: ex_model_strict_def)
  from unreachable_threshold_drops_all [OF t ex_filter_strict] t ex_filter_strict
  show ?thesis by blast
qed

text \<open>
  When the filter returns.  On a rectangular alignment of ASCII text whose column count
  is not 1, with a model of six coefficients whose dot product does not overflow and
  whose linear predictor stays between \<open>- 640\<close> and \<open>33\<close> on every column, and rows
  without per-letter annotations, the filter returns the source rows restricted to the
  kept columns.
\<close>

theorem filter_returns_kept_columns:
  assumes "rectangular alignment" and "ascii_rows alignment"
    and "get_alignment_length alignment \<noteq> 1"
    and "length (logisticModelCoefficients self) = 6"
    and "list_all (\<lambda>i. in_exact_range self (feature_row alignment i))
           [0..<get_alignment_length alignment]"
    and "list_all (\<lambda>r. letter_annotations r = []) alignment"
  shows "filter_aln self alignment =
           Inr (map (\<lambda>r. r\<lparr>seq := map ((!) (seq r)) (kept_columns self alignment)\<rparr>) alignment)"
  using assms by (rule filter_aln_total)

theorem filter_returns_kept_columns_witness:
  "rectangular ex_alignment \<and> ascii_rows ex_alignment \<and>
   get_alignment_length ex_alignment \<noteq> 1 \<and>
   length (logisticModelCoefficients ex_model_gaps) = 6 \<and>
   list_all (\<lambda>i. in_exact_range ex_model_gaps (feature_row ex_alignment i))
     [0..<get_alignment_length ex_alignment] \<and>
   list_all (\<lambda>r. letter_annotations r = []) ex_alignment \<and>
   filter_aln ex_model_gaps ex_alignment = Inr [ex_row ''AA'', ex_row ''AA'']"
proof -
  have r: "rectangular ex_alignment" and n: "get_alignment_length ex_alignment \<noteq> 1"
    and ne: "ex_alignment \<noteq> []"
    using ex_alignment_rect by simp_all
  have c: "length (logisticModelCoefficients ex_model_gaps) = 6"
    by (simp add: ex_model_gaps_def)
  have e: "list_all (\<lambda>i. in_exact_range ex_model_gaps (feature_row ex_alignment i))
     [0..<get_alignment_length ex_alignment]"
    using ne by (simp add: list_all_iff gaps_model_exact ex_model_gaps_def)
  have la: "list_all (\<lambda>r. letter_annotations r = []) ex_alignment"
    by (simp add: ex_alignment_def ex_row_def)
  have "filter_aln ex_model_gaps ex_alignment = Inr [ex_row ''AA'', ex_row ''AA'']"
    using filter_returns_kept_columns [OF r ex_alignment_ascii n c e la]
    unfolding ex_kept_gaps by (simp add: ex_alignment_def ex_row_def)
  with r ex_alignment_ascii n c e la show ?thesis by (intro conjI)
qed

text \<open>
  What \<^verbatim>\<open>getScores\<close> returns.  On a feature matrix whose column count is the number of
  coefficients and whose row count is not 1, with a dot product that does not overflow
  and the linear predictor of every row between \<open>- 640\<close> and \<open>33\<close>, the scores are the
  sigmoid of the dot product plus the intercept, one per row, in row order.
\<close>

theorem scores_of_feature_matrix:
  assumes "ncols F = length (logisticModelCoefficients self)" and "length (cells F) \<noteq> 1"
    and "list_all (in_exact_range self) (cells F)"
  shows "getScores self F = Inr (map (spec_score self) (cells F))"
  using assms by (rule getScores_exact)

theorem scores_of_feature_matrix_witness:
  "ncols ex_features = length (logisticModelCoefficients ex_model_gaps) \<and>
   length (cells ex_features) \<noteq> 1 \<and>
   list_all (in_exact_range ex_model_gaps) (cells ex_features) \<and>
   getScores ex_model_gaps ex_features =
     Inr [spec_sigmoid (1 / 4), spec_sigmoid (- 1 / 4), spec_sigmoid (1 / 4)]"
proof -
  have a: "ncols ex_features = length (logisticModelCoefficients ex_model_gaps)"
    by (simp add: ex_features_def ex_model_gaps_def)
  have b: "length (cells ex_features) \<noteq> 1"
    by (simp add: ex_features_def)
  have e: "list_all (in_exact_range ex_model_gaps) (cells ex_features)"
    by (simp add: ex_features_def in_exact_range_def no_overflow_def spec_dot_def
        ex_model_gaps_def)
  have c: "getScores ex_model_gaps ex_features =
      Inr [spec_sigmoid (1 / 4), spec_sigmoid (- 1 / 4), spec_sigmoid (1 / 4)]"
    using scores_of_feature_matrix [OF a b e]
    by (simp add: ex_features_def spec_score_def spec_dot_def ex_model_gaps_def)
  from a b e c show ?thesis by (intro conjI)
qed

text \<open>
  Overflow.  \<^verbatim>\<open>getScores\<close> raises \<^verbatim>\<open>OverflowError\<close> when \<^verbatim>\<open>math.exp\<close> overflows: with all
  coefficients 0 and the intercept \<open>- 1024\<close>, on the feature matrix of the alignment with
  the rows \<^verbatim>\<open>A-A\<close> and \<^verbatim>\<open>AAA\<close>.
\<close>

theorem exp_overflow_raises:
  "alifilter_getAlignmentFeatures ex_alignment = Inr ex_features \<and>
   getScores ex_model_overflow ex_features = Inl OverflowError \<and>
   getMask ex_model_overflow ex_alignment = Inl OverflowError"
  using ex_alignment_extracts ex_overflow_scores
  by (simp add: getMask_def getMaskFromFeatures_def)


end
